theory Spec2Isabelle
  imports Complex_Main "HOL-Library.AList"
begin

section \<open>Python values\<close>

text \<open>
  The exceptions the modelled code can raise. \<open>RedisModelsException\<close> is the library's own
  exception class (\<^verbatim>\<open>utils.py\<close>); \<open>PyException\<close> is the plain \<^verbatim>\<open>Exception\<close> that
  \<^verbatim>\<open>validate_type\<close> raises; the others are Python's built-in exceptions. Messages are
  not modelled. \<open>Unmodelled\<close> is no Python exception: it marks a call whose result this
  development does not determine (the text of a float, \<^verbatim>\<open>float(s)\<close>, the \<^verbatim>\<open>repr\<close> of
  a container), so that no theorem below speaks about such a call by accident.
\<close>

datatype error =
    RedisModelsException
  | PyException
  | TypeError
  | ValueError
  | AttributeError
  | IndexError
  | KeyError
  | Unmodelled

text \<open>
  \<^verbatim>\<open>datetime.datetime\<close> and \<^verbatim>\<open>datetime.date\<close>. \<open>tzinfo\<close> is \<open>None\<close> for a naive
  datetime and \<open>Some m\<close> for an aware one whose UTC offset is \<open>m\<close> minutes;
  \<^verbatim>\<open>datetime.timezone.utc\<close> is \<open>Some 0\<close>.
\<close>

record datetime =
  year :: int
  month :: int
  day :: int
  hour :: int
  minute :: int
  second :: int
  microsecond :: int
  tzinfo :: "int option"

record date =
  d_year :: int
  d_month :: int
  d_day :: int

text \<open>
  The Python values that reach the modelled code. A float carries the rational number it
  denotes (NaN and the infinities are not modelled), and so does a \<^verbatim>\<open>decimal.Decimal\<close>;
  a dictionary has string keys, in insertion order; \<open>PModel name attrs\<close> is an instance of the model class \<open>name\<close>
  with the attributes \<^verbatim>\<open>getattr\<close> finds on it.
\<close>

datatype pyval =
    PNone
  | PBool bool
  | PInt int
  | PFloat rat
  | PDecimal rat
  | PStr string
  | PList "pyval list"
  | PDict "(string \<times> pyval) list"
  | PDateTime datetime
  | PDate date
  | PModel string "(string \<times> pyval) list"

datatype pytype = TBool | TInt | TFloat | TDecimal | TStr | TList | TDict | TDateTime | TDate

text \<open>Truth value testing: \<^verbatim>\<open>bool(v)\<close>. A model instance defines no \<^verbatim>\<open>__bool__\<close> or
  \<^verbatim>\<open>__len__\<close>, so it is true.\<close>

fun truthy :: "pyval \<Rightarrow> bool" where
  "truthy PNone = False"
| "truthy (PBool b) = b"
| "truthy (PInt n) = (n \<noteq> 0)"
| "truthy (PFloat q) = (q \<noteq> 0)"
| "truthy (PDecimal q) = (q \<noteq> 0)"
| "truthy (PStr s) = (s \<noteq> [])"
| "truthy (PList xs) = (xs \<noteq> [])"
| "truthy (PDict kvs) = (kvs \<noteq> [])"
| "truthy (PDateTime d) = True"
| "truthy (PDate d) = True"
| "truthy (PModel n attrs) = True"

text \<open>\<^verbatim>\<open>isinstance(v, t)\<close> for one class: \<^verbatim>\<open>bool\<close> is a subclass of \<^verbatim>\<open>int\<close>, and
  \<^verbatim>\<open>datetime\<close> of \<^verbatim>\<open>date\<close>.\<close>

fun isinstance1 :: "pyval \<Rightarrow> pytype \<Rightarrow> bool" where
  "isinstance1 (PBool b) t = (t = TBool \<or> t = TInt)"
| "isinstance1 (PInt n) t = (t = TInt)"
| "isinstance1 (PFloat q) t = (t = TFloat)"
| "isinstance1 (PDecimal q) t = (t = TDecimal)"
| "isinstance1 (PStr s) t = (t = TStr)"
| "isinstance1 (PList xs) t = (t = TList)"
| "isinstance1 (PDict kvs) t = (t = TDict)"
| "isinstance1 (PDateTime d) t = (t = TDateTime \<or> t = TDate)"
| "isinstance1 (PDate d) t = (t = TDate)"
| "isinstance1 PNone t = False"
| "isinstance1 (PModel n attrs) t = False"

text \<open>\<^verbatim>\<open>isinstance(v, ts)\<close> for a class or a tuple of classes.\<close>

definition isinstance :: "pyval \<Rightarrow> pytype list \<Rightarrow> bool" where
  "isinstance v ts = list_ex (isinstance1 v) ts"

text \<open>
  \<^verbatim>\<open>utils.validate_type\<close>:
  \<^verbatim>\<open>
  def validate_type(value, allowed_types):
      if not value or isinstance(value, allowed_types):
          return value
      ...
      raise Exception(...)
  \<close>
\<close>

definition validate_type :: "pyval \<Rightarrow> pytype list \<Rightarrow> error + pyval" where
  "validate_type v allowed_types =
     (if \<not> truthy v \<or> isinstance v allowed_types then Inr v else Inl PyException)"


section \<open>Comparing values\<close>

text \<open>The number a \<^verbatim>\<open>bool\<close>, \<^verbatim>\<open>int\<close>, \<^verbatim>\<open>float\<close> or \<^verbatim>\<open>Decimal\<close> denotes; Python
  compares these types with one another by value.\<close>

fun num_val :: "pyval \<Rightarrow> rat option" where
  "num_val (PBool b) = Some (if b then 1 else 0)"
| "num_val (PInt n) = Some (of_int n)"
| "num_val (PFloat q) = Some q"
| "num_val (PDecimal q) = Some q"
| "num_val v = None"

text \<open>\<^verbatim>\<open>date.toordinal\<close>: the proleptic Gregorian day number.\<close>

definition is_leap :: "int \<Rightarrow> bool" where
  "is_leap y = (y mod 4 = 0 \<and> (y mod 100 \<noteq> 0 \<or> y mod 400 = 0))"

definition days_in_month :: "int \<Rightarrow> int \<Rightarrow> int" where
  "days_in_month y m =
     (if m = 2 then (if is_leap y then 29 else 28)
      else if m = 4 \<or> m = 6 \<or> m = 9 \<or> m = 11 then 30 else 31)"

definition days_before_year :: "int \<Rightarrow> int" where
  "days_before_year y = (y - 1) * 365 + (y - 1) div 4 - (y - 1) div 100 + (y - 1) div 400"

definition days_before_month :: "int \<Rightarrow> int \<Rightarrow> int" where
  "days_before_month y m = sum_list (map (days_in_month y) [1 .. m - 1])"

definition toordinal :: "int \<Rightarrow> int \<Rightarrow> int \<Rightarrow> int" where
  "toordinal y m d = days_before_year y + days_before_month y m + d"

text \<open>The instant of a datetime read at UTC offset \<open>off\<close> (minutes), in microseconds.\<close>

definition dt_micros :: "datetime \<Rightarrow> int \<Rightarrow> int" where
  "dt_micros d off =
     ((((toordinal (year d) (month d) (day d) * 24 + hour d) * 60 + minute d - off) * 60
        + second d) * 1000000) + microsecond d"

text \<open>\<^verbatim>\<open>datetime.__eq__\<close>: a naive and an aware datetime are never equal; two aware ones
  are compared as instants.\<close>

definition datetime_eq :: "datetime \<Rightarrow> datetime \<Rightarrow> bool" where
  "datetime_eq a b =
     (case (tzinfo a, tzinfo b) of
        (None, None) \<Rightarrow> dt_micros a 0 = dt_micros b 0
      | (Some oa, Some ob) \<Rightarrow> dt_micros a oa = dt_micros b ob
      | _ \<Rightarrow> False)"

datatype cmp = LT | EQ | GT

definition cmp_of :: "'a::linorder \<Rightarrow> 'a \<Rightarrow> cmp" where
  "cmp_of a b = (if a < b then LT else if a = b then EQ else GT)"

text \<open>Ordering a naive against an aware datetime raises \<^verbatim>\<open>TypeError\<close>.\<close>

definition datetime_cmp :: "datetime \<Rightarrow> datetime \<Rightarrow> error + cmp" where
  "datetime_cmp a b =
     (case (tzinfo a, tzinfo b) of
        (None, None) \<Rightarrow> Inr (cmp_of (dt_micros a 0) (dt_micros b 0))
      | (Some oa, Some ob) \<Rightarrow> Inr (cmp_of (dt_micros a oa) (dt_micros b ob))
      | _ \<Rightarrow> Inl TypeError)"

fun str_cmp :: "string \<Rightarrow> string \<Rightarrow> cmp" where
  "str_cmp [] [] = EQ"
| "str_cmp [] (y # ys) = LT"
| "str_cmp (x # xs) [] = GT"
| "str_cmp (x # xs) (y # ys) =
     (if (of_char x :: nat) < of_char y then LT
      else if (of_char y :: nat) < of_char x then GT
      else str_cmp xs ys)"

text \<open>
  The public attributes of the built-in values, by name; every object also has
  attributes whose names start with an underscore. \<^verbatim>\<open>None\<close> has no public attribute.
\<close>

fun public_attrs :: "pyval \<Rightarrow> string list" where
  "public_attrs (PBool b) =
     [''as_integer_ratio'', ''bit_count'', ''bit_length'', ''conjugate'', ''denominator'',
      ''from_bytes'', ''imag'', ''is_integer'', ''numerator'', ''real'', ''to_bytes'']"
| "public_attrs (PInt n) =
     [''as_integer_ratio'', ''bit_count'', ''bit_length'', ''conjugate'', ''denominator'',
      ''from_bytes'', ''imag'', ''is_integer'', ''numerator'', ''real'', ''to_bytes'']"
| "public_attrs (PFloat q) =
     [''as_integer_ratio'', ''conjugate'', ''from_number'', ''fromhex'', ''hex'', ''imag'',
      ''is_integer'', ''real'']"
| "public_attrs (PDecimal q) =
     [''adjusted'', ''as_integer_ratio'', ''as_tuple'', ''canonical'', ''compare'',
      ''compare_signal'', ''compare_total'', ''compare_total_mag'', ''conjugate'', ''copy_abs'',
      ''copy_negate'', ''copy_sign'', ''exp'', ''fma'', ''from_float'', ''from_number'',
      ''imag'', ''is_canonical'', ''is_finite'', ''is_infinite'', ''is_nan'', ''is_normal'',
      ''is_qnan'', ''is_signed'', ''is_snan'', ''is_subnormal'', ''is_zero'', ''ln'', ''log10'',
      ''logb'', ''logical_and'', ''logical_invert'', ''logical_or'', ''logical_xor'', ''max'',
      ''max_mag'', ''min'', ''min_mag'', ''next_minus'', ''next_plus'', ''next_toward'',
      ''normalize'', ''number_class'', ''quantize'', ''radix'', ''real'', ''remainder_near'',
      ''rotate'', ''same_quantum'', ''scaleb'', ''shift'', ''sqrt'', ''to_eng_string'',
      ''to_integral'', ''to_integral_exact'', ''to_integral_value'']"
| "public_attrs (PStr s) =
     [''capitalize'', ''casefold'', ''center'', ''count'', ''encode'', ''endswith'',
      ''expandtabs'', ''find'', ''format'', ''format_map'', ''index'', ''isalnum'', ''isalpha'',
      ''isascii'', ''isdecimal'', ''isdigit'', ''isidentifier'', ''islower'', ''isnumeric'',
      ''isprintable'', ''isspace'', ''istitle'', ''isupper'', ''join'', ''ljust'', ''lower'',
      ''lstrip'', ''maketrans'', ''partition'', ''removeprefix'', ''removesuffix'', ''replace'',
      ''rfind'', ''rindex'', ''rjust'', ''rpartition'', ''rsplit'', ''rstrip'', ''split'',
      ''splitlines'', ''startswith'', ''strip'', ''swapcase'', ''title'', ''translate'',
      ''upper'', ''zfill'']"
| "public_attrs (PList xs) =
     [''append'', ''clear'', ''copy'', ''count'', ''extend'', ''index'', ''insert'', ''pop'',
      ''remove'', ''reverse'', ''sort'']"
| "public_attrs (PDict kvs) =
     [''clear'', ''copy'', ''fromkeys'', ''get'', ''items'', ''keys'', ''pop'', ''popitem'',
      ''setdefault'', ''update'', ''values'']"
| "public_attrs (PDate d) =
     [''ctime'', ''day'', ''fromisocalendar'', ''fromisoformat'', ''fromordinal'',
      ''fromtimestamp'', ''isocalendar'', ''isoformat'', ''isoweekday'', ''max'', ''min'',
      ''month'', ''replace'', ''resolution'', ''strftime'', ''strptime'', ''timetuple'',
      ''today'', ''toordinal'', ''weekday'', ''year'']"
| "public_attrs (PDateTime d) =
     [''astimezone'', ''combine'', ''ctime'', ''date'', ''day'', ''dst'', ''fold'',
      ''fromisocalendar'', ''fromisoformat'', ''fromordinal'', ''fromtimestamp'', ''hour'',
      ''isocalendar'', ''isoformat'', ''isoweekday'', ''max'', ''microsecond'', ''min'',
      ''minute'', ''month'', ''now'', ''replace'', ''resolution'', ''second'', ''strftime'',
      ''strptime'', ''time'', ''timestamp'', ''timetuple'', ''timetz'', ''today'',
      ''toordinal'', ''tzinfo'', ''tzname'', ''utcfromtimestamp'', ''utcnow'', ''utcoffset'',
      ''utctimetuple'', ''weekday'', ''year'']"
| "public_attrs v = []"

definition startswith_uscore :: "string \<Rightarrow> bool" where
  "startswith_uscore k = (case k of [] \<Rightarrow> False | c # cs \<Rightarrow> c = CHR ''_'')"

definition has_plain_attr :: "pyval \<Rightarrow> string \<Rightarrow> bool" where
  "has_plain_attr v k = (startswith_uscore k \<or> k \<in> set (public_attrs v))"

text \<open>
  \<^verbatim>\<open>RedisModel.__eq__\<close> against a value that is no model instance: \<^verbatim>\<open>getattr\<close> of
  the first field raises \<^verbatim>\<open>AttributeError\<close> unless the value has an attribute of that
  name; what the comparison of a field with such an attribute gives is not modelled.
\<close>

definition model_eq_plain :: "(string \<times> pyval) list \<Rightarrow> pyval \<Rightarrow> error + bool" where
  "model_eq_plain attrs v =
     (case attrs of
        [] \<Rightarrow> Inr True
      | (k, w) # rest \<Rightarrow> if has_plain_attr v k then Inl Unmodelled else Inl AttributeError)"

text \<open>
  \<^verbatim>\<open>x == y\<close>. Numbers compare by value, containers element by element, stopping at the
  first difference. \<^verbatim>\<open>RedisModel.__eq__\<close> is
  \<^verbatim>\<open>all((getattr(self, k) == getattr(other, k)) for k in fields)\<close>:
  it raises \<^verbatim>\<open>AttributeError\<close> when \<^verbatim>\<open>other\<close> lacks a field, and Python calls it
  as the reflected operation when only the right operand is a model.
  The argument \<open>miss\<close> of \<open>py_eq_items\<close> is the outcome for a key the right side lacks:
  \<open>False\<close> for a dictionary, \<^verbatim>\<open>AttributeError\<close> for a model.
\<close>

fun py_eq :: "pyval \<Rightarrow> pyval \<Rightarrow> error + bool"
  and py_eq_list :: "pyval list \<Rightarrow> pyval list \<Rightarrow> error + bool"
  and py_eq_items :: "error + bool \<Rightarrow> (string \<times> pyval) list \<Rightarrow> (string \<times> pyval) list \<Rightarrow> error + bool"
where
  "py_eq (PModel n attrs) y =
     (case y of
        PModel m battrs \<Rightarrow> py_eq_items (Inl AttributeError) attrs battrs
      | _ \<Rightarrow> model_eq_plain attrs y)"
| "py_eq (PList xs) y =
     (case y of
        PList ys \<Rightarrow> if length xs \<noteq> length ys then Inr False else py_eq_list xs ys
      | PModel m battrs \<Rightarrow> model_eq_plain battrs (PList xs)
      | _ \<Rightarrow> Inr False)"
| "py_eq (PDict kvs) y =
     (case y of
        PDict kws \<Rightarrow> if length kvs \<noteq> length kws then Inr False else py_eq_items (Inr False) kvs kws
      | PModel m battrs \<Rightarrow> model_eq_plain battrs (PDict kvs)
      | _ \<Rightarrow> Inr False)"
| "py_eq x y =
     (case y of
        PModel m battrs \<Rightarrow> model_eq_plain battrs x
      | _ \<Rightarrow>
        Inr (case (x, y) of
               (PNone, PNone) \<Rightarrow> True
             | (PStr s, PStr t) \<Rightarrow> s = t
             | (PDateTime a, PDateTime b) \<Rightarrow> datetime_eq a b
             | (PDate a, PDate b) \<Rightarrow> a = b
             | _ \<Rightarrow> (case (num_val x, num_val y) of
                       (Some p, Some q) \<Rightarrow> p = q
                     | _ \<Rightarrow> False)))"
| "py_eq_list [] ys = Inr True"
| "py_eq_list (x # xs) [] = Inr False"
| "py_eq_list (x # xs) (y # ys) =
     (case py_eq x y of
        Inl e \<Rightarrow> Inl e
      | Inr b \<Rightarrow> if b then py_eq_list xs ys else Inr False)"
| "py_eq_items miss [] other = Inr True"
| "py_eq_items miss ((k, v) # kvs) other =
     (case map_of other k of
        None \<Rightarrow> miss
      | Some w \<Rightarrow>
          (case py_eq v w of
             Inl e \<Rightarrow> Inl e
           | Inr b \<Rightarrow> if b then py_eq_items miss kvs other else Inr False))"


text \<open>
  The ordering comparisons, as a three-way result. Values of unrelated types, \<^verbatim>\<open>None\<close>,
  dictionaries and model instances are not ordered: \<^verbatim>\<open>TypeError\<close>. A list is ordered by
  its first element that differs.
\<close>

definition date_cmp :: "date \<Rightarrow> date \<Rightarrow> cmp" where
  "date_cmp a b =
     cmp_of (toordinal (d_year a) (d_month a) (d_day a)) (toordinal (d_year b) (d_month b) (d_day b))"

fun py_cmp :: "pyval \<Rightarrow> pyval \<Rightarrow> error + cmp"
  and py_cmp_list :: "pyval list \<Rightarrow> pyval list \<Rightarrow> error + cmp"
where
  "py_cmp (PList xs) y = (case y of PList ys \<Rightarrow> py_cmp_list xs ys | _ \<Rightarrow> Inl TypeError)"
| "py_cmp (PStr s) y = (case y of PStr t \<Rightarrow> Inr (str_cmp s t) | _ \<Rightarrow> Inl TypeError)"
| "py_cmp (PDateTime a) y = (case y of PDateTime b \<Rightarrow> datetime_cmp a b | _ \<Rightarrow> Inl TypeError)"
| "py_cmp (PDate a) y = (case y of PDate b \<Rightarrow> Inr (date_cmp a b) | _ \<Rightarrow> Inl TypeError)"
| "py_cmp x y =
     (case (num_val x, num_val y) of
        (Some p, Some q) \<Rightarrow> Inr (cmp_of p q)
      | _ \<Rightarrow> Inl TypeError)"
| "py_cmp_list [] [] = Inr EQ"
| "py_cmp_list [] (y # ys) = Inr LT"
| "py_cmp_list (x # xs) [] = Inr GT"
| "py_cmp_list (x # xs) (y # ys) =
     (case py_eq x y of
        Inl e \<Rightarrow> Inl e
      | Inr b \<Rightarrow> if b then py_cmp_list xs ys else py_cmp x y)"

definition py_gt :: "pyval \<Rightarrow> pyval \<Rightarrow> error + bool" where
  "py_gt x y = (case py_cmp x y of Inl e \<Rightarrow> Inl e | Inr c \<Rightarrow> Inr (c = GT))"

definition py_gte :: "pyval \<Rightarrow> pyval \<Rightarrow> error + bool" where
  "py_gte x y = (case py_cmp x y of Inl e \<Rightarrow> Inl e | Inr c \<Rightarrow> Inr (c \<noteq> LT))"

definition py_lt :: "pyval \<Rightarrow> pyval \<Rightarrow> error + bool" where
  "py_lt x y = (case py_cmp x y of Inl e \<Rightarrow> Inl e | Inr c \<Rightarrow> Inr (c = LT))"

definition py_lte :: "pyval \<Rightarrow> pyval \<Rightarrow> error + bool" where
  "py_lte x y = (case py_cmp x y of Inl e \<Rightarrow> Inl e | Inr c \<Rightarrow> Inr (c \<noteq> GT))"

section \<open>Strings\<close>

text \<open>Strings are byte lists; the case mapping and the digits are those of ASCII.\<close>

definition lower_char :: "char \<Rightarrow> char" where
  "lower_char c =
     (if (65::nat) \<le> of_char c \<and> of_char c \<le> (90::nat) then char_of (of_char c + (32::nat)) else c)"

definition lower :: "string \<Rightarrow> string" where
  "lower s = map lower_char s"

fun startswith :: "string \<Rightarrow> string \<Rightarrow> bool" where
  "startswith s [] = True"
| "startswith [] (c # p) = False"
| "startswith (d # s) (c # p) = (d = c \<and> startswith s p)"

definition endswith :: "string \<Rightarrow> string \<Rightarrow> bool" where
  "endswith s p = startswith (rev s) (rev p)"

text \<open>\<^verbatim>\<open>t in s\<close> for two strings.\<close>

fun substring :: "string \<Rightarrow> string \<Rightarrow> bool" where
  "substring t [] = (t = [])"
| "substring t (c # s) = (startswith (c # s) t \<or> substring t s)"

text \<open>\<^verbatim>\<open>s.split('__')\<close>: the separator is found from the left, without overlap. The first
  argument accumulates the current piece, reversed.\<close>

fun split_uu :: "string \<Rightarrow> string \<Rightarrow> string list" where
  "split_uu acc [] = [rev acc]"
| "split_uu acc [c] = [rev (c # acc)]"
| "split_uu acc (c # d # cs) =
     (if c = CHR ''_'' \<and> d = CHR ''_'' then rev acc # split_uu [] cs
      else split_uu (c # acc) (d # cs))"

text \<open>\<^verbatim>\<open>s.split(':')\<close>.\<close>

fun split_colon :: "string \<Rightarrow> string \<Rightarrow> string list" where
  "split_colon acc [] = [rev acc]"
| "split_colon acc (c # cs) =
     (if c = CHR '':'' then rev acc # split_colon [] cs else split_colon (c # acc) cs)"

definition is_digit :: "char \<Rightarrow> bool" where
  "is_digit c = ((48::nat) \<le> of_char c \<and> of_char c \<le> (57::nat))"

definition digit_char :: "nat \<Rightarrow> char" where
  "digit_char d = char_of (48 + d)"

definition digit_val :: "char \<Rightarrow> nat" where
  "digit_val c = of_char c - 48"

text \<open>\<^verbatim>\<open>str(n)\<close> for an integer.\<close>

fun str_nat :: "nat \<Rightarrow> string" where
  "str_nat n = (if n < 10 then [digit_char n] else str_nat (n div 10) @ [digit_char (n mod 10)])"

declare str_nat.simps [simp del]

definition str_int :: "int \<Rightarrow> string" where
  "str_int i = (if i < 0 then CHR ''-'' # str_nat (nat (- i)) else str_nat (nat i))"

fun nat_of_digits :: "nat \<Rightarrow> string \<Rightarrow> nat" where
  "nat_of_digits acc [] = acc"
| "nat_of_digits acc (c # cs) = nat_of_digits (acc * 10 + digit_val c) cs"

text \<open>
  \<^verbatim>\<open>int(s)\<close> for a string: an optional sign and decimal digits, \<^verbatim>\<open>ValueError\<close>
  otherwise. Python also accepts surrounding whitespace and underscores between digits;
  a string with such a character is outside this development.
\<close>

definition int_str :: "string \<Rightarrow> error + int" where
  "int_str s =
     (if list_ex (\<lambda>c. c = CHR ''_'' \<or> c = CHR '' '' \<or> ((9::nat) \<le> of_char c \<and> of_char c \<le> (13::nat))) s
      then Inl Unmodelled
      else
        (case s of
           [] \<Rightarrow> Inl ValueError
         | c # cs \<Rightarrow>
             if c = CHR ''-'' \<or> c = CHR ''+'' then
               (if cs \<noteq> [] \<and> list_all is_digit cs
                then Inr ((if c = CHR ''-'' then - 1 else 1) * int (nat_of_digits 0 cs))
                else Inl ValueError)
             else if list_all is_digit s then Inr (int (nat_of_digits 0 s))
             else Inl ValueError))"


section \<open>Membership\<close>

text \<open>Lists, dictionaries and model instances (\<^verbatim>\<open>RedisModel\<close> defines \<^verbatim>\<open>__eq__\<close> and
  no \<^verbatim>\<open>__hash__\<close>) cannot be hashed.\<close>

fun hashable :: "pyval \<Rightarrow> bool" where
  "hashable (PList xs) = False"
| "hashable (PDict kvs) = False"
| "hashable (PModel n attrs) = False"
| "hashable v = True"

text \<open>\<^verbatim>\<open>x in ys\<close> for a sequence: the items are compared with \<^verbatim>\<open>==\<close> from the left.\<close>

fun py_in_list :: "pyval \<Rightarrow> pyval list \<Rightarrow> error + bool" where
  "py_in_list x [] = Inr False"
| "py_in_list x (e # es) =
     (case py_eq e x of
        Inl err \<Rightarrow> Inl err
      | Inr b \<Rightarrow> if b then Inr True else py_in_list x es)"

text \<open>\<^verbatim>\<open>x in d.keys()\<close> and \<^verbatim>\<open>x in d\<close> for a dictionary with string keys: \<^verbatim>\<open>x\<close> is
  hashed first.\<close>

definition py_in_strkeys :: "pyval \<Rightarrow> string list \<Rightarrow> error + bool" where
  "py_in_strkeys x ks =
     (if \<not> hashable x then Inl TypeError
      else Inr (case x of PStr k \<Rightarrow> k \<in> set ks | _ \<Rightarrow> False))"

text \<open>
  \<^verbatim>\<open>x in y\<close>. A string takes only a string on the left; \<^verbatim>\<open>RedisModel.__contains__\<close> is
  \<^verbatim>\<open>field_name in self.__fields__\<close>; \<^verbatim>\<open>None\<close>, numbers, dates and datetimes are not
  containers.
\<close>

fun py_in :: "pyval \<Rightarrow> pyval \<Rightarrow> error + bool" where
  "py_in x (PStr s) = (case x of PStr t \<Rightarrow> Inr (substring t s) | _ \<Rightarrow> Inl TypeError)"
| "py_in x (PList ys) = py_in_list x ys"
| "py_in x (PDict kvs) = py_in_strkeys x (map fst kvs)"
| "py_in x (PModel n attrs) = py_in_strkeys x (map fst attrs)"
| "py_in x y = Inl TypeError"

text \<open>\<^verbatim>\<open>range(y)\<close>, as the list of its items: \<^verbatim>\<open>y\<close> must be an \<^verbatim>\<open>int\<close> (a \<^verbatim>\<open>bool\<close>
  is one).\<close>

fun py_range :: "pyval \<Rightarrow> error + pyval list" where
  "py_range (PInt n) = Inr (map PInt [0 .. n - 1])"
| "py_range (PBool b) = Inr (map PInt [0 .. (if b then 1 else 0) - 1])"
| "py_range y = Inl TypeError"

section \<open>The filter operators\<close>

text \<open>\<^verbatim>\<open>x.lower()\<close>, \<^verbatim>\<open>x.startswith(y)\<close> and \<^verbatim>\<open>x.endswith(y)\<close>: only a string has
  these methods, and the argument must be a string.\<close>

fun py_lower :: "pyval \<Rightarrow> error + string" where
  "py_lower (PStr s) = Inr (lower s)"
| "py_lower v = Inl AttributeError"

fun py_startswith :: "pyval \<Rightarrow> pyval \<Rightarrow> error + bool" where
  "py_startswith (PStr s) y = (case y of PStr p \<Rightarrow> Inr (startswith s p) | _ \<Rightarrow> Inl TypeError)"
| "py_startswith x y = Inl AttributeError"

fun py_endswith :: "pyval \<Rightarrow> pyval \<Rightarrow> error + bool" where
  "py_endswith (PStr s) y = (case y of PStr p \<Rightarrow> Inr (endswith s p) | _ \<Rightarrow> Inl TypeError)"
| "py_endswith x y = Inl AttributeError"

text \<open>
  \<^verbatim>\<open>BaseRedisManager.FILTER_METHODS\<close> (\<^verbatim>\<open>core.py\<close>):
  \<^verbatim>\<open>
  'exact': lambda x, y: x == y,
  'iexact': lambda x, y: x.lower() == y.lower(),
  'contains': lambda x, y: x in y,
  'in': lambda x, y: x in y,
  'gt': lambda x, y: x > y,
  'gte': lambda x, y: x >= y,
  'lt': lambda x, y: x < y,
  'lte': lambda x, y: x <= y,
  'startswith': lambda x, y: x.startswith(y),
  'endswith': lambda x, y: x.endswith(y),
  'istartswith': lambda x, y: x.lower().startswith(y.lower()),
  'iendswith': lambda x, y: x.lower().endswith(y.lower()),
  'range': lambda x, y: x in range(y),
  'isnull': lambda x, y: (x is None) == y,
  \<close>
\<close>

definition m_exact :: "pyval \<Rightarrow> pyval \<Rightarrow> error + bool" where
  "m_exact x y = py_eq x y"

definition m_iexact :: "pyval \<Rightarrow> pyval \<Rightarrow> error + bool" where
  "m_iexact x y =
     (case py_lower x of
        Inl e \<Rightarrow> Inl e
      | Inr a \<Rightarrow> (case py_lower y of Inl e \<Rightarrow> Inl e | Inr b \<Rightarrow> Inr (a = b)))"

definition m_istartswith :: "pyval \<Rightarrow> pyval \<Rightarrow> error + bool" where
  "m_istartswith x y =
     (case py_lower x of
        Inl e \<Rightarrow> Inl e
      | Inr a \<Rightarrow> (case py_lower y of Inl e \<Rightarrow> Inl e | Inr b \<Rightarrow> Inr (startswith a b)))"

definition m_iendswith :: "pyval \<Rightarrow> pyval \<Rightarrow> error + bool" where
  "m_iendswith x y =
     (case py_lower x of
        Inl e \<Rightarrow> Inl e
      | Inr a \<Rightarrow> (case py_lower y of Inl e \<Rightarrow> Inl e | Inr b \<Rightarrow> Inr (endswith a b)))"

definition m_range :: "pyval \<Rightarrow> pyval \<Rightarrow> error + bool" where
  "m_range x y = (case py_range y of Inl e \<Rightarrow> Inl e | Inr ks \<Rightarrow> py_in_list x ks)"

definition m_isnull :: "pyval \<Rightarrow> pyval \<Rightarrow> error + bool" where
  "m_isnull x y = py_eq (PBool (x = PNone)) y"

definition FILTER_METHODS :: "(string \<times> (pyval \<Rightarrow> pyval \<Rightarrow> error + bool)) list" where
  "FILTER_METHODS =
     [(''exact'', m_exact),
      (''iexact'', m_iexact),
      (''contains'', py_in),
      (''in'', py_in),
      (''gt'', py_gt),
      (''gte'', py_gte),
      (''lt'', py_lt),
      (''lte'', py_lte),
      (''startswith'', py_startswith),
      (''endswith'', py_endswith),
      (''istartswith'', m_istartswith),
      (''iendswith'', m_iendswith),
      (''range'', m_range),
      (''isnull'', m_isnull)]"

text \<open>\<^verbatim>\<open>d.replace(tzinfo=datetime.timezone.utc)\<close>: the fields stay, the zone is set.\<close>

definition replace_utc :: "datetime \<Rightarrow> datetime" where
  "replace_utc d = d\<lparr>tzinfo := Some 0\<rparr>"

text \<open>
  \<^verbatim>\<open>
  def _split_filtering(self, filter_param):
      filter_field_name, filter_type = filter_param, 'exact'
      filter_param_split = filter_param.split('__')
      if filter_param_split[-1] not in self.FILTER_METHODS.keys():
          return filter_param_split, filter_type
      fields_to_filter = filter_param_split[:-1]
      filter_type = filter_param_split[-1]
      return fields_to_filter, filter_type
  \<close>
\<close>

definition split_filtering :: "string \<Rightarrow> string list \<times> string" where
  "split_filtering filter_param =
     (let filter_param_split = split_uu [] filter_param in
      if last filter_param_split \<notin> set (map fst FILTER_METHODS)
      then (filter_param_split, ''exact'')
      else (butlast filter_param_split, last filter_param_split))"

text \<open>
  \<^verbatim>\<open>
  def _filter_value(self, value, filter_type, filter_by):
      if filter_type not in self.FILTER_METHODS:
          raise RedisModelsException(f'Filter {filter_type} not supported')
      if isinstance(filter_by, datetime.datetime):
          filter_by = filter_by.replace(tzinfo=datetime.timezone.utc)
      return self.FILTER_METHODS[filter_type](value, filter_by)
  \<close>
\<close>

definition filter_value :: "pyval \<Rightarrow> string \<Rightarrow> pyval \<Rightarrow> error + bool" where
  "filter_value v filter_type filter_by =
     (case map_of FILTER_METHODS filter_type of
        None \<Rightarrow> Inl RedisModelsException
      | Some method \<Rightarrow>
          method v (case filter_by of PDateTime d \<Rightarrow> PDateTime (replace_utc d) | _ \<Rightarrow> filter_by))"

text \<open>
  The loop of \<^verbatim>\<open>_filter\<close> over the nested field names:
  \<^verbatim>\<open>
  for field_name in nested_field_names:
      if value is None:
          continue
      if not isinstance(value, RedisModel) or not hasattr(value, field_name):
          raise RedisModelsException(...)
      value = value[field_name]
  \<close>
\<close>

fun filter_chain :: "pyval \<Rightarrow> string list \<Rightarrow> error + pyval" where
  "filter_chain v [] = Inr v"
| "filter_chain v (field_name # rest) =
     (if v = PNone then filter_chain v rest
      else
        (case v of
           PModel n attrs \<Rightarrow>
             (case map_of attrs field_name of
                None \<Rightarrow> Inl RedisModelsException
              | Some w \<Rightarrow> filter_chain w rest)
         | _ \<Rightarrow> Inl RedisModelsException))"

text \<open>
  \<^verbatim>\<open>_filter\<close>, after the loop:
  \<^verbatim>\<open>
  if isinstance(value, datetime.datetime) and isinstance(filter_by, datetime.datetime):
      value = value.replace(tzinfo=datetime.timezone.utc)
      filter_by = filter_by.replace(tzinfo=datetime.timezone.utc)
  allowed = self._filter_value(value, filter_type, filter_by)
  return allowed
  \<close>
\<close>

definition filter_nested :: "pyval \<Rightarrow> string list \<Rightarrow> string \<Rightarrow> pyval \<Rightarrow> error + bool" where
  "filter_nested v nested_field_names filter_type filter_by =
     (case filter_chain v nested_field_names of
        Inl e \<Rightarrow> Inl e
      | Inr w \<Rightarrow>
          (case (w, filter_by) of
             (PDateTime a, PDateTime b) \<Rightarrow>
               filter_value (PDateTime (replace_utc a)) filter_type (PDateTime (replace_utc b))
           | _ \<Rightarrow> filter_value w filter_type filter_by))"

text \<open>
  \<^verbatim>\<open>
  def _filter_field_name(self, field_name, value, raw_filters):
      allowed_list = [True]
      for filter_param in raw_filters.keys():
          filter_by = raw_filters[filter_param]
          fields_to_filter, filter_type = self._split_filtering(filter_param)
          if field_name == fields_to_filter[0]:
              fields_to_filter = fields_to_filter[1:]
              allowed_list.append(self._filter(value, fields_to_filter, filter_type, filter_by))
      allowed = all(allowed_list)
      return allowed
  \<close>
  \<^verbatim>\<open>fields_to_filter[0]\<close> raises \<^verbatim>\<open>IndexError\<close> when the list is empty (a filter
  named by an operator alone). The filters are the keyword arguments, in their order.
\<close>

fun filter_field_name :: "string \<Rightarrow> pyval \<Rightarrow> (string \<times> pyval) list \<Rightarrow> error + bool" where
  "filter_field_name field_name v [] = Inr True"
| "filter_field_name field_name v ((filter_param, filter_by) # rest) =
     (case split_filtering filter_param of
        (fields_to_filter, filter_type) \<Rightarrow>
          (case fields_to_filter of
             [] \<Rightarrow> Inl IndexError
           | first # nested \<Rightarrow>
               if field_name = first then
                 (case filter_nested v nested filter_type filter_by of
                    Inl e \<Rightarrow> Inl e
                  | Inr b \<Rightarrow>
                      (case filter_field_name field_name v rest of
                         Inl e \<Rightarrow> Inl e
                       | Inr b' \<Rightarrow> Inr (b \<and> b')))
               else filter_field_name field_name v rest))"


section \<open>Conversions and the datetime formats\<close>

text \<open>Sequencing of calls that may raise.\<close>

definition ebind :: "error + 'a \<Rightarrow> ('a \<Rightarrow> error + 'b) \<Rightarrow> error + 'b" where
  "ebind m f = (case m of Inl e \<Rightarrow> Inl e | Inr x \<Rightarrow> f x)"

text \<open>\<^verbatim>\<open>f'{v}'\<close>, the text of a value, where this development determines it.\<close>

fun py_format :: "pyval \<Rightarrow> error + string" where
  "py_format PNone = Inr ''None''"
| "py_format (PBool b) = Inr (if b then ''True'' else ''False'')"
| "py_format (PInt n) = Inr (str_int n)"
| "py_format (PStr s) = Inr s"
| "py_format v = Inl Unmodelled"

text \<open>\<^verbatim>\<open>int(v)\<close>: a float is truncated towards zero, a string is parsed.\<close>

fun py_int :: "pyval \<Rightarrow> error + int" where
  "py_int (PBool b) = Inr (if b then 1 else 0)"
| "py_int (PInt n) = Inr n"
| "py_int (PFloat q) = Inr (if q < 0 then \<lceil>q\<rceil> else \<lfloor>q\<rfloor>)"
| "py_int (PDecimal q) = Inr (if q < 0 then \<lceil>q\<rceil> else \<lfloor>q\<rfloor>)"
| "py_int (PStr s) = int_str s"
| "py_int v = Inl TypeError"

text \<open>A \<^verbatim>\<open>datetime\<close> object always holds a valid date and time of day.\<close>

definition valid_date :: "int \<Rightarrow> int \<Rightarrow> int \<Rightarrow> bool" where
  "valid_date y m d = (1 \<le> y \<and> y \<le> 9999 \<and> 1 \<le> m \<and> m \<le> 12 \<and> 1 \<le> d \<and> d \<le> days_in_month y m)"

definition valid_datetime :: "datetime \<Rightarrow> bool" where
  "valid_datetime d =
     (valid_date (year d) (month d) (day d) \<and> 0 \<le> hour d \<and> hour d < 24 \<and>
      0 \<le> minute d \<and> minute d < 60 \<and> 0 \<le> second d \<and> second d < 60 \<and>
      0 \<le> microsecond d \<and> microsecond d < 1000000)"

definition pad2 :: "int \<Rightarrow> string" where
  "pad2 n = [digit_char (nat n div 10), digit_char (nat n mod 10)]"

definition pad4 :: "int \<Rightarrow> string" where
  "pad4 n = [digit_char (nat n div 1000), digit_char (nat n div 100 mod 10),
             digit_char (nat n div 10 mod 10), digit_char (nat n mod 10)]"

text \<open>
  \<^verbatim>\<open>strftime('%Y.%m.%d')\<close>. \<^verbatim>\<open>%Y\<close> is the year as the C library of Linux writes
  it, a decimal number that is not padded: a year below 1000 has fewer than four digits.
  \<^verbatim>\<open>%m\<close> and \<^verbatim>\<open>%d\<close> have two digits.
\<close>

definition strftime_Y :: "int \<Rightarrow> string" where
  "strftime_Y y = str_nat (nat y)"

definition strftime_ymd :: "int \<Rightarrow> int \<Rightarrow> int \<Rightarrow> error + string" where
  "strftime_ymd y m d =
     (if valid_date y m d then Inr (strftime_Y y @ ''.'' @ pad2 m @ ''.'' @ pad2 d)
      else Inl Unmodelled)"

text \<open>
  \<^verbatim>\<open>strftime('%Y.%m.%d-%H:%M:%S+%Z')\<close>. \<^verbatim>\<open>%Z\<close> is the name of the zone: empty for
  a naive datetime, \<^verbatim>\<open>UTC\<close> for \<^verbatim>\<open>timezone.utc\<close>; the names of other zones are not
  modelled. The microseconds are not written.
\<close>

definition strftime_datetime :: "datetime \<Rightarrow> error + string" where
  "strftime_datetime d =
     (if \<not> valid_datetime d then Inl Unmodelled
      else
        ebind (strftime_ymd (year d) (month d) (day d)) (\<lambda>ymd.
        ebind (case tzinfo d of
                 None \<Rightarrow> Inr []
               | Some off \<Rightarrow> if off = 0 then Inr ''UTC'' else Inl Unmodelled) (\<lambda>zone.
        Inr (ymd @ ''-'' @ pad2 (hour d) @ '':'' @ pad2 (minute d) @ '':'' @ pad2 (second d)
               @ ''+'' @ zone))))"

text \<open>
  \<^verbatim>\<open>strptime\<close> reads a numeric directive as the digits up to the next literal of the
  format: \<^verbatim>\<open>%Y\<close> takes exactly four, the others one or two, and the number must lie in
  the directive's range. A day written as a blank and a digit, which Python also reads,
  is not modelled.
\<close>

definition parse_num :: "nat \<Rightarrow> nat \<Rightarrow> int \<Rightarrow> int \<Rightarrow> string \<Rightarrow> error + (int \<times> string)" where
  "parse_num minlen maxlen lo hi s =
     (let ds = takeWhile is_digit s; n = int (nat_of_digits 0 ds) in
      if minlen \<le> length ds \<and> length ds \<le> maxlen \<and> lo \<le> n \<and> n \<le> hi
      then Inr (n, dropWhile is_digit s)
      else Inl ValueError)"

definition expect :: "char \<Rightarrow> string \<Rightarrow> error + string" where
  "expect c s = (case s of [] \<Rightarrow> Inl ValueError | x # r \<Rightarrow> if x = c then Inr r else Inl ValueError)"

definition strptime_ymd :: "string \<Rightarrow> error + ((int \<times> int \<times> int) \<times> string)" where
  "strptime_ymd s =
     (if s \<noteq> [] \<and> list_ex (\<lambda>c. c = CHR '' '') s then Inl Unmodelled
      else
        ebind (parse_num 4 4 1 9999 s) (\<lambda>(y, r1).
        ebind (expect CHR ''.'' r1) (\<lambda>r2.
        ebind (parse_num 1 2 1 12 r2) (\<lambda>(m, r3).
        ebind (expect CHR ''.'' r3) (\<lambda>r4.
        ebind (parse_num 1 2 1 31 r4) (\<lambda>(d, r5).
        if d \<le> days_in_month y m then Inr ((y, m, d), r5) else Inl ValueError))))))"

text \<open>\<^verbatim>\<open>datetime.strptime(s, '%Y.%m.%d').date()\<close>.\<close>

definition strptime_date :: "string \<Rightarrow> error + date" where
  "strptime_date s =
     ebind (strptime_ymd s) (\<lambda>((y, m, d), r).
       if r = [] then Inr \<lparr>d_year = y, d_month = m, d_day = d\<rparr> else Inl ValueError)"

text \<open>
  \<^verbatim>\<open>datetime.strptime(s, '%Y.%m.%d-%H:%M:%S+%Z')\<close>: a naive datetime. \<^verbatim>\<open>%Z\<close> reads
  \<^verbatim>\<open>UTC\<close> or \<^verbatim>\<open>GMT\<close> in any case, and the names of the machine's own time zone,
  which are not modelled.
\<close>

definition strptime_datetime :: "string \<Rightarrow> error + datetime" where
  "strptime_datetime s =
     ebind (strptime_ymd s) (\<lambda>((y, m, d), r0).
     ebind (expect CHR ''-'' r0) (\<lambda>r1.
     ebind (parse_num 1 2 0 23 r1) (\<lambda>(H, r2).
     ebind (expect CHR '':'' r2) (\<lambda>r3.
     ebind (parse_num 1 2 0 59 r3) (\<lambda>(M, r4).
     ebind (expect CHR '':'' r4) (\<lambda>r5.
     ebind (parse_num 1 2 0 59 r5) (\<lambda>(S, r6).
     ebind (expect CHR ''+'' r6) (\<lambda>zone.
     if lower zone = ''utc'' \<or> lower zone = ''gmt''
     then Inr \<lparr>year = y, month = m, day = d, hour = H, minute = M, second = S,
               microsecond = 0, tzinfo = None\<rparr>
     else Inl Unmodelled))))))))"

text \<open>
  \<^verbatim>\<open>float(v)\<close> for a \<^verbatim>\<open>Decimal\<close> \<open>v\<close>: the binary floating-point number of 53
  significant bits nearest to \<open>v\<close>, a tie going to the even significand. The exponent
  of the last bit is at least \<open>-1074\<close>; a result of magnitude \<open>2 ^ 1024\<close> or more is
  an infinity, which is not modelled. \<open>bit_length n\<close> is \<^verbatim>\<open>n.bit_length()\<close>, and
  \<open>binade a\<close> is the exponent \<open>e\<close> with \<open>2 ^ e \<le> a < 2 ^ (e + 1)\<close>, for \<open>a > 0\<close>.
\<close>

definition pow2 :: "int \<Rightarrow> rat" where
  "pow2 k = (if 0 \<le> k then 2 ^ nat k else 1 / 2 ^ nat (- k))"

fun bit_length :: "nat \<Rightarrow> nat" where
  "bit_length n = (if n = 0 then 0 else Suc (bit_length (n div 2)))"

declare bit_length.simps [simp del]

definition binade :: "rat \<Rightarrow> int" where
  "binade a =
     (let (n, d) = quotient_of a;
          k = int (bit_length (nat n)) - int (bit_length (nat d))
      in if pow2 k \<le> a then k else k - 1)"

definition round_half_even :: "rat \<Rightarrow> int" where
  "round_half_even x =
     (let n = \<lfloor>x\<rfloor>; r = x - of_int n
      in if r < 1 / 2 then n else if 1 / 2 < r then n + 1 else if even n then n else n + 1)"

definition py_float :: "rat \<Rightarrow> error + rat" where
  "py_float q =
     (if q = 0 then Inr 0
      else
        let a = \<bar>q\<bar>;
            ulp = pow2 (max (binade a) (- 1022) - 52);
            r = of_int (round_half_even (a / ulp)) * ulp
        in if pow2 1024 \<le> r then Inl Unmodelled else Inr (if q < 0 then - r else r))"

text \<open>
  \<^verbatim>\<open>decimal.Decimal(v)\<close>: the exact value of an \<^verbatim>\<open>int\<close> or a \<^verbatim>\<open>float\<close>. The reading
  of a text, and of a list as sign, digits and exponent, is not modelled; other values
  raise \<^verbatim>\<open>TypeError\<close>.
\<close>

fun py_Decimal :: "pyval \<Rightarrow> error + pyval" where
  "py_Decimal (PBool b) = Inr (PDecimal (if b then 1 else 0))"
| "py_Decimal (PInt n) = Inr (PDecimal (of_int n))"
| "py_Decimal (PFloat q) = Inr (PDecimal q)"
| "py_Decimal (PDecimal q) = Inr (PDecimal q)"
| "py_Decimal (PStr s) = Inl Unmodelled"
| "py_Decimal (PList xs) = Inl Unmodelled"
| "py_Decimal v = Inl TypeError"

section \<open>Fields\<close>

text \<open>
  The field classes of \<^verbatim>\<open>fields.py\<close> that the models of this development use.
  \<^verbatim>\<open>RedisDecimal\<close> and \<^verbatim>\<open>RedisJson\<close> with its subclasses \<^verbatim>\<open>RedisDict\<close> and
  \<^verbatim>\<open>RedisList\<close> follow as functions of their own; the two relation fields (a query
  for each value read) are not modelled.
\<close>

datatype kind = KField | KString | KNumber | KId | KBool | KDateTime | KDate

text \<open>A default is a value or a function of no argument; \<open>Callable v\<close> is a function
  whose call returns \<open>v\<close>.\<close>

datatype pydefault = Static pyval | Callable pyval

text \<open>\<^verbatim>\<open>utils.exec_if_callable\<close>:
  \<^verbatim>\<open>return value() if isfunction(value) or isbuiltin(value) else value\<close>.\<close>

fun exec_if_callable :: "pydefault \<Rightarrow> pyval" where
  "exec_if_callable (Static v) = v"
| "exec_if_callable (Callable v) = v"

text \<open>The attributes of a \<^verbatim>\<open>RedisField\<close>: \<^verbatim>\<open>default\<close>, \<^verbatim>\<open>value\<close>, \<^verbatim>\<open>choices\<close>
  (\<^verbatim>\<open>None\<close> or a dictionary, here its items in order) and \<^verbatim>\<open>null\<close>.\<close>

record field =
  kind :: kind
  default_f :: pydefault
  value_f :: pyval
  choices :: "(pyval \<times> pyval) list option"
  null_f :: bool

text \<open>
  The constructors. \<^verbatim>\<open>RedisField.__init__(default=None, choices=None, null=True)\<close> sets
  \<^verbatim>\<open>value\<close> to \<^verbatim>\<open>None\<close>; \<^verbatim>\<open>RedisId\<close> forces \<^verbatim>\<open>null = False\<close> and \<^verbatim>\<open>RedisBool\<close>
  forces \<^verbatim>\<open>choices = {True: 'Yes', False: 'No'}\<close>.
\<close>

definition bool_choices :: "(pyval \<times> pyval) list" where
  "bool_choices = [(PBool True, PStr ''Yes''), (PBool False, PStr ''No'')]"

definition new_field :: "kind \<Rightarrow> pydefault \<Rightarrow> (pyval \<times> pyval) list option \<Rightarrow> bool \<Rightarrow> field" where
  "new_field k d c n =
     \<lparr>kind = k, default_f = d, value_f = PNone,
      choices = (if k = KBool then Some bool_choices else c),
      null_f = (if k = KId then False else n)\<rparr>"

text \<open>\<^verbatim>\<open>RedisField.copy\<close>: a new field of the same class with the same \<^verbatim>\<open>default\<close>,
  \<^verbatim>\<open>choices\<close> and \<^verbatim>\<open>null\<close>.\<close>

definition copy :: "field \<Rightarrow> field" where
  "copy f = new_field (kind f) (default_f f) (choices f) (null_f f)"

text \<open>\<^verbatim>\<open>v in choices.keys()\<close>: the value is hashed, then compared with the keys.\<close>

definition py_in_keys :: "pyval \<Rightarrow> pyval list \<Rightarrow> error + bool" where
  "py_in_keys v ks =
     (if \<not> hashable v then Inl TypeError else Inr (list_ex (\<lambda>k. py_eq k v = Inr True) ks))"

text \<open>
  The exception of a disallowed value carries the message
  \<^verbatim>\<open>f'{self.value} is not allowed. Allowed values: {", ".join(list(self.choices.keys()))}'\<close>;
  \<^verbatim>\<open>join\<close> raises \<^verbatim>\<open>TypeError\<close> on a key that is not a string, before the exception
  is made.
\<close>

definition choice_error :: "pyval list \<Rightarrow> error" where
  "choice_error ks = (if list_all (\<lambda>k. isinstance1 k TStr) ks then RedisModelsException else TypeError)"

text \<open>
  \<^verbatim>\<open>
  def check_value(self):
      if self.value is None:
          self.value = exec_if_callable(self.default)
      if self.value is None and not self.null:
          raise RedisModelsException('null is not allowed')
      elif self.value and self.choices and self.value not in self.choices.keys():
          raise RedisModelsException(...)
      return self.value
  \<close>
  The field is returned with the result, since the method assigns to it before it raises.
\<close>

definition check_value :: "field \<Rightarrow> (error + pyval) \<times> field" where
  "check_value f =
     (let f1 = (if value_f f = PNone then f\<lparr>value_f := exec_if_callable (default_f f)\<rparr> else f);
          v = value_f f1
      in if v = PNone \<and> \<not> null_f f1 then (Inl RedisModelsException, f1)
         else if truthy v \<and> choices f1 \<noteq> None \<and> choices f1 \<noteq> Some [] then
           (case py_in_keys v (map fst (the (choices f1))) of
              Inl e \<Rightarrow> (Inl e, f1)
            | Inr b \<Rightarrow>
                if b then (Inr v, f1)
                else (Inl (choice_error (map fst (the (choices f1)))), f1))
         else (Inr v, f1))"

text \<open>\<^verbatim>\<open>RedisField.clean\<close>: \<^verbatim>\<open>self.value = self.check_value(); return self.value\<close>.\<close>

definition RedisField_clean :: "field \<Rightarrow> (error + pyval) \<times> field" where
  "RedisField_clean f =
     (case check_value f of
        (Inl e, f1) \<Rightarrow> (Inl e, f1)
      | (Inr v, f1) \<Rightarrow> (Inr v, f1\<lparr>value_f := v\<rparr>))"

text \<open>
  \<^verbatim>\<open>
  class RedisString(RedisField):
      def clean(self):
          self.value = super().clean()
          if self.value is not None:
              self.value = f'{self.value}'
          return self.value
  \<close>
\<close>

definition RedisString_clean :: "field \<Rightarrow> (error + pyval) \<times> field" where
  "RedisString_clean f =
     (case RedisField_clean f of
        (Inl e, f1) \<Rightarrow> (Inl e, f1)
      | (Inr v, f1) \<Rightarrow>
          if v \<noteq> PNone then
            (case py_format v of
               Inl e \<Rightarrow> (Inl e, f1)
             | Inr s \<Rightarrow> (Inr (PStr s), f1\<lparr>value_f := PStr s\<rparr>))
          else (Inr v, f1))"

text \<open>
  \<^verbatim>\<open>
  class RedisNumber(RedisField):
      def clean(self):
          self.value = super().clean()
          return validate_type(self.value, (int, float))
  \<close>
\<close>

definition RedisNumber_clean :: "field \<Rightarrow> (error + pyval) \<times> field" where
  "RedisNumber_clean f =
     (case RedisField_clean f of
        (Inl e, f1) \<Rightarrow> (Inl e, f1)
      | (Inr v, f1) \<Rightarrow> (validate_type v [TInt, TFloat], f1))"

text \<open>
  \<^verbatim>\<open>
  class RedisBool(RedisNumber):
      def clean(self):
          self.value = super().clean()
          if self.value is not None:
              self.value = int(validate_type(self.value, bool))
          return self.value
  \<close>
\<close>

definition RedisBool_clean :: "field \<Rightarrow> (error + pyval) \<times> field" where
  "RedisBool_clean f =
     (case RedisNumber_clean f of
        (Inl e, f1) \<Rightarrow> (Inl e, f1)
      | (Inr v, f1) \<Rightarrow>
          if v \<noteq> PNone then
            (case ebind (validate_type v [TBool]) py_int of
               Inl e \<Rightarrow> (Inl e, f1)
             | Inr n \<Rightarrow> (Inr (PInt n), f1\<lparr>value_f := PInt n\<rparr>))
          else (Inr v, f1))"

text \<open>
  \<^verbatim>\<open>
  class RedisDateTime(RedisField):
      def clean(self):
          self.value = super().clean()
          if self.value is not None:
              validate_type(self.value, datetime.datetime)
              string_datetime = self.value.replace(tzinfo=datetime.timezone.utc).strftime('%Y.%m.%d-%H:%M:%S+%Z')
              self.value = string_datetime
          return self.value
  \<close>
  A false value that is no datetime passes \<^verbatim>\<open>validate_type\<close> and fails at
  \<^verbatim>\<open>replace\<close>: a string's \<^verbatim>\<open>replace\<close> takes no keyword (\<^verbatim>\<open>TypeError\<close>), the other
  values have no such method (\<^verbatim>\<open>AttributeError\<close>).
\<close>

definition RedisDateTime_clean :: "field \<Rightarrow> (error + pyval) \<times> field" where
  "RedisDateTime_clean f =
     (case RedisField_clean f of
        (Inl e, f1) \<Rightarrow> (Inl e, f1)
      | (Inr v, f1) \<Rightarrow>
          if v \<noteq> PNone then
            (case ebind (validate_type v [TDateTime]) (\<lambda>w.
                    case w of
                      PDateTime d \<Rightarrow> strftime_datetime (replace_utc d)
                    | PStr s \<Rightarrow> Inl TypeError
                    | _ \<Rightarrow> Inl AttributeError) of
               Inl e \<Rightarrow> (Inl e, f1)
             | Inr s \<Rightarrow> (Inr (PStr s), f1\<lparr>value_f := PStr s\<rparr>))
          else (Inr v, f1))"

text \<open>
  \<^verbatim>\<open>
  class RedisDate(RedisField):
      def clean(self):
          self.value = super().clean()
          if self.value is not None:
              validate_type(self.value, datetime.date)
              string_date = self.value.strftime('%Y.%m.%d')
              self.value = string_date
          return self.value
  \<close>
\<close>

definition RedisDate_clean :: "field \<Rightarrow> (error + pyval) \<times> field" where
  "RedisDate_clean f =
     (case RedisField_clean f of
        (Inl e, f1) \<Rightarrow> (Inl e, f1)
      | (Inr v, f1) \<Rightarrow>
          if v \<noteq> PNone then
            (case ebind (validate_type v [TDate]) (\<lambda>w.
                    case w of
                      PDate d \<Rightarrow> strftime_ymd (d_year d) (d_month d) (d_day d)
                    | PDateTime d \<Rightarrow>
                        if valid_datetime d then strftime_ymd (year d) (month d) (day d)
                        else Inl Unmodelled
                    | _ \<Rightarrow> Inl AttributeError) of
               Inl e \<Rightarrow> (Inl e, f1)
             | Inr s \<Rightarrow> (Inr (PStr s), f1\<lparr>value_f := PStr s\<rparr>))
          else (Inr v, f1))"

text \<open>The method \<^verbatim>\<open>clean\<close> of a field, by its class (\<^verbatim>\<open>RedisId\<close> inherits
  \<^verbatim>\<open>RedisNumber\<close>'s).\<close>

definition clean :: "field \<Rightarrow> (error + pyval) \<times> field" where
  "clean f =
     (case kind f of
        KField \<Rightarrow> RedisField_clean f
      | KString \<Rightarrow> RedisString_clean f
      | KNumber \<Rightarrow> RedisNumber_clean f
      | KId \<Rightarrow> RedisNumber_clean f
      | KBool \<Rightarrow> RedisBool_clean f
      | KDateTime \<Rightarrow> RedisDateTime_clean f
      | KDate \<Rightarrow> RedisDate_clean f)"

text \<open>
  \<^verbatim>\<open>
  def deserialize_value(self, value, ignore_deserialization_errors):
      if value is None and not self.null:
          logger.warning(...)
          if not ignore_deserialization_errors:
              raise RedisModelsException(...)
      return value
  \<close>
\<close>

definition RedisField_deserialize_value :: "field \<Rightarrow> pyval \<Rightarrow> bool \<Rightarrow> error + pyval" where
  "RedisField_deserialize_value f v ignore_deserialization_errors =
     (if v = PNone \<and> \<not> null_f f \<and> \<not> ignore_deserialization_errors
      then Inl RedisModelsException else Inr v)"

text \<open>\<^verbatim>\<open>RedisString.deserialize_value\<close>: \<^verbatim>\<open>f'{value}'\<close> unless the value is
  \<^verbatim>\<open>None\<close>.\<close>

definition RedisString_deserialize_value :: "field \<Rightarrow> pyval \<Rightarrow> bool \<Rightarrow> error + pyval" where
  "RedisString_deserialize_value f v ign =
     ebind (RedisField_deserialize_value f v ign) (\<lambda>w.
       if w \<noteq> PNone then ebind (py_format w) (\<lambda>s. Inr (PStr s)) else Inr w)"

text \<open>
  \<^verbatim>\<open>
  def deserialize_value(self, value, ignore_errors):
      value = super().deserialize_value(value, ignore_errors)
      if isinstance(value, str):
          value = float(value) if '.' in value else int(value)
      return validate_type(value, (int, float))
  \<close>
  \<^verbatim>\<open>float(value)\<close> rounds to a binary float, which is not modelled.
\<close>

definition RedisNumber_deserialize_value :: "field \<Rightarrow> pyval \<Rightarrow> bool \<Rightarrow> error + pyval" where
  "RedisNumber_deserialize_value f v ign =
     ebind (RedisField_deserialize_value f v ign) (\<lambda>w.
     ebind (case w of
              PStr s \<Rightarrow> if CHR ''.'' \<in> set s then Inl Unmodelled
                        else ebind (int_str s) (\<lambda>n. Inr (PInt n))
            | _ \<Rightarrow> Inr w) (\<lambda>x.
     validate_type x [TInt, TFloat]))"

text \<open>
  \<^verbatim>\<open>
  def deserialize_value(self, value, ignore_errors):
      value = super().deserialize_value(value, ignore_errors)
      if value is not None:
          value = bool(validate_type(value, int))
      return value
  \<close>
\<close>

definition RedisBool_deserialize_value :: "field \<Rightarrow> pyval \<Rightarrow> bool \<Rightarrow> error + pyval" where
  "RedisBool_deserialize_value f v ign =
     ebind (RedisNumber_deserialize_value f v ign) (\<lambda>w.
       if w \<noteq> PNone then ebind (validate_type w [TInt]) (\<lambda>x. Inr (PBool (truthy x)))
       else Inr w)"

text \<open>
  \<^verbatim>\<open>
  def deserialize_value(self, value, ignore_deserialization_errors):
      value = super().deserialize_value(value, ignore_deserialization_errors)
      if value is not None:
          validate_type(value, str)
          value = datetime.datetime.strptime(value, '%Y.%m.%d-%H:%M:%S+%Z').replace(tzinfo=datetime.timezone.utc)
      return value
  \<close>
  \<^verbatim>\<open>strptime\<close> raises \<^verbatim>\<open>TypeError\<close> on an argument that is no string.
\<close>

definition RedisDateTime_deserialize_value :: "field \<Rightarrow> pyval \<Rightarrow> bool \<Rightarrow> error + pyval" where
  "RedisDateTime_deserialize_value f v ign =
     ebind (RedisField_deserialize_value f v ign) (\<lambda>w.
       if w \<noteq> PNone then
         ebind (validate_type w [TStr]) (\<lambda>x.
           case x of
             PStr s \<Rightarrow> ebind (strptime_datetime s) (\<lambda>d. Inr (PDateTime (replace_utc d)))
           | _ \<Rightarrow> Inl TypeError)
       else Inr w)"

text \<open>\<^verbatim>\<open>RedisDate.deserialize_value\<close>:
  \<^verbatim>\<open>value = datetime.datetime.strptime(value, '%Y.%m.%d').date()\<close>.\<close>

definition RedisDate_deserialize_value :: "field \<Rightarrow> pyval \<Rightarrow> bool \<Rightarrow> error + pyval" where
  "RedisDate_deserialize_value f v ign =
     ebind (RedisField_deserialize_value f v ign) (\<lambda>w.
       if w \<noteq> PNone then
         ebind (validate_type w [TStr]) (\<lambda>x.
           case x of
             PStr s \<Rightarrow> ebind (strptime_date s) (\<lambda>d. Inr (PDate d))
           | _ \<Rightarrow> Inl TypeError)
       else Inr w)"

definition deserialize_value :: "field \<Rightarrow> pyval \<Rightarrow> bool \<Rightarrow> error + pyval" where
  "deserialize_value f v ign =
     (case kind f of
        KField \<Rightarrow> RedisField_deserialize_value f v ign
      | KString \<Rightarrow> RedisString_deserialize_value f v ign
      | KNumber \<Rightarrow> RedisNumber_deserialize_value f v ign
      | KId \<Rightarrow> RedisNumber_deserialize_value f v ign
      | KBool \<Rightarrow> RedisBool_deserialize_value f v ign
      | KDateTime \<Rightarrow> RedisDateTime_deserialize_value f v ign
      | KDate \<Rightarrow> RedisDate_deserialize_value f v ign)"

text \<open>
  \<^verbatim>\<open>
  class RedisDecimal(RedisField):
      def clean(self):
          self.value = super().clean()
          if isinstance(self.value, decimal.Decimal):
              self.value = float(self.value)
          return validate_type(self.value, (int, float, decimal.Decimal))

      def deserialize_value(self, value, ignore_deserialization_errors):
          value = super().deserialize_value(value, ignore_deserialization_errors)
          if value is not None:
              value = decimal.Decimal(value)
          return value
  \<close>
\<close>

definition RedisDecimal_clean :: "field \<Rightarrow> (error + pyval) \<times> field" where
  "RedisDecimal_clean f =
     (case RedisField_clean f of
        (Inl e, f1) \<Rightarrow> (Inl e, f1)
      | (Inr v, f1) \<Rightarrow>
          (case (case v of
                   PDecimal q \<Rightarrow> ebind (py_float q) (\<lambda>x. Inr (PFloat x))
                 | _ \<Rightarrow> Inr v) of
             Inl e \<Rightarrow> (Inl e, f1)
           | Inr w \<Rightarrow> (validate_type w [TInt, TFloat, TDecimal], f1\<lparr>value_f := w\<rparr>)))"

definition RedisDecimal_deserialize_value :: "field \<Rightarrow> pyval \<Rightarrow> bool \<Rightarrow> error + pyval" where
  "RedisDecimal_deserialize_value f v ign =
     ebind (RedisField_deserialize_value f v ign) (\<lambda>w.
       if w \<noteq> PNone then py_Decimal w else Inr w)"





section \<open>The store\<close>

text \<open>
  The key-value store holds text. \<open>RStr s\<close> is the text \<open>s\<close>; \<open>RJson d\<close> is the JSON text
  that \<^verbatim>\<open>json.dumps\<close> writes for the dictionary \<open>d\<close> of a record, and \<^verbatim>\<open>json.loads\<close>
  gives \<open>d\<close> back. The store is the list of its keys and values, each key once.
\<close>

datatype rval = RStr string | RJson "(string \<times> pyval) list"

type_synonym redis = "(string \<times> rval) list"

definition redis_get :: "redis \<Rightarrow> string \<Rightarrow> rval option" where
  "redis_get r k = map_of r k"

definition redis_set :: "redis \<Rightarrow> string \<Rightarrow> rval \<Rightarrow> redis" where
  "redis_set r k v = AList.update k v r"

text \<open>\<^verbatim>\<open>get_keys(pattern)\<close> for a pattern \<^verbatim>\<open>prefix*\<close> (\<^verbatim>\<open>keys\<close> or \<^verbatim>\<open>scan_iter\<close>): the
  keys that start with the prefix, which is taken to hold no character special in a
  glob pattern.\<close>

definition get_keys :: "redis \<Rightarrow> string \<Rightarrow> string list" where
  "get_keys r pfx = filter (\<lambda>k. startswith k pfx) (map fst r)"

text \<open>What \<^verbatim>\<open>json.dumps\<close> accepts: a date, a datetime, a \<^verbatim>\<open>Decimal\<close> or a model
  instance raises \<^verbatim>\<open>TypeError\<close>.\<close>

fun json_able :: "pyval \<Rightarrow> bool"
  and json_able_list :: "pyval list \<Rightarrow> bool"
  and json_able_items :: "(string \<times> pyval) list \<Rightarrow> bool"
where
  "json_able (PList xs) = json_able_list xs"
| "json_able (PDict kvs) = json_able_items kvs"
| "json_able (PDateTime d) = False"
| "json_able (PDate d) = False"
| "json_able (PDecimal q) = False"
| "json_able (PModel n attrs) = False"
| "json_able v = True"
| "json_able_list [] = True"
| "json_able_list (x # xs) = (json_able x \<and> json_able_list xs)"
| "json_able_items [] = True"
| "json_able_items ((k, v) # kvs) = (json_able v \<and> json_able_items kvs)"


text \<open>\<^verbatim>\<open>json.loads\<close> of a stored value; a text that \<^verbatim>\<open>json.dumps\<close> did not write is
  not modelled.\<close>

fun json_loads :: "rval \<Rightarrow> error + (string \<times> pyval) list" where
  "json_loads (RJson d) = Inr d"
| "json_loads (RStr s) = Inl Unmodelled"

section \<open>The manager: lock and id allocation\<close>

text \<open>\<^verbatim>\<open>BaseRedisManager\<close>: the prefix (it holds no colon, \<^verbatim>\<open>process_prefix\<close> removes
  them) and the flag \<^verbatim>\<open>ignore_deserialization_errors\<close>.\<close>

record manager =
  prefix :: string
  ignore_deserialization_errors :: bool

text \<open>\<^verbatim>\<open>self.__lock_key = f'__lock__:{self.prefix}'\<close>.\<close>

definition lock_key :: "manager \<Rightarrow> string" where
  "lock_key mgr = ''__lock__:'' @ prefix mgr"

text \<open>\<^verbatim>\<open>RedisModel.max_id_key\<close>: \<^verbatim>\<open>f'max_id:{cls.objects.prefix}:{cls.model_name}'\<close>.\<close>

definition max_id_key :: "manager \<Rightarrow> string \<Rightarrow> string" where
  "max_id_key mgr model_name = ''max_id:'' @ prefix mgr @ '':'' @ model_name"

text \<open>\<^verbatim>\<open>is_locked\<close>: \<^verbatim>\<open>bool(int(self.redis_instance.get(self.__lock_key)))\<close>;
  \<^verbatim>\<open>int(None)\<close> raises \<^verbatim>\<open>TypeError\<close>.\<close>

definition is_locked :: "manager \<Rightarrow> redis \<Rightarrow> error + bool" where
  "is_locked mgr r =
     (case redis_get r (lock_key mgr) of
        None \<Rightarrow> Inl TypeError
      | Some (RStr s) \<Rightarrow> ebind (int_str s) (\<lambda>n. Inr (n \<noteq> 0))
      | Some (RJson d) \<Rightarrow> Inl ValueError)"

text \<open>\<^verbatim>\<open>release_lock\<close>: \<^verbatim>\<open>self.redis_instance.set(self.__lock_key, int(False))\<close>.\<close>

definition release_lock :: "manager \<Rightarrow> redis \<Rightarrow> redis" where
  "release_lock mgr r = redis_set r (lock_key mgr) (RStr (str_int 0))"

text \<open>
  \<^verbatim>\<open>
  def wait_for_lock(self):
      while self.is_locked():
          pass
      self.redis_instance.set(self.__lock_key, int(True))
  \<close>
  One caller runs at a time, so nothing changes the flag while the loop reads it: the
  loop never ends when the flag is set, and the result is then \<open>None\<close>.
\<close>

partial_function (option) wait_for_lock :: "manager \<Rightarrow> redis \<Rightarrow> ((error + unit) \<times> redis) option" where
  "wait_for_lock mgr r =
     (case is_locked mgr r of
        Inl e \<Rightarrow> Some (Inl e, r)
      | Inr locked \<Rightarrow>
          if locked then wait_for_lock mgr r
          else Some (Inr (), redis_set r (lock_key mgr) (RStr (str_int 1))))"

text \<open>
  \<^verbatim>\<open>
  def next_id(self, model):
      self.base_mgr.wait_for_lock()
      stored_max_id = self.base_mgr.redis_instance.get(model.max_id_key())
      new_id = int(stored_max_id or 0) + 1
      self.base_mgr.redis_instance.set(model.max_id_key(), new_id)
      self.base_mgr.release_lock()
      return new_id
  \<close>
  The store is returned with the result: when \<^verbatim>\<open>int\<close> raises, the lock stays set.
\<close>

definition stored_or_0 :: "rval option \<Rightarrow> error + int" where
  "stored_or_0 stored =
     (case stored of
        None \<Rightarrow> Inr 0
      | Some (RStr s) \<Rightarrow> if s = [] then Inr 0 else int_str s
      | Some (RJson d) \<Rightarrow> Inl ValueError)"

definition next_id :: "manager \<Rightarrow> string \<Rightarrow> redis \<Rightarrow> ((error + int) \<times> redis) option" where
  "next_id mgr model_name r =
     (case wait_for_lock mgr r of
        None \<Rightarrow> None
      | Some (Inl e, r1) \<Rightarrow> Some (Inl e, r1)
      | Some (Inr u, r1) \<Rightarrow>
          (case stored_or_0 (redis_get r1 (max_id_key mgr model_name)) of
             Inl e \<Rightarrow> Some (Inl e, r1)
           | Inr stored_max_id \<Rightarrow>
               (let new_id = stored_max_id + 1;
                    r2 = redis_set r1 (max_id_key mgr model_name) (RStr (str_int new_id))
                in Some (Inr new_id, release_lock mgr r2))))"

text \<open>A sequence of allocations, each run to its end before the next starts; the models
  that ask are named in order, and the ids are returned in the same order.\<close>

fun next_ids :: "manager \<Rightarrow> string list \<Rightarrow> redis \<Rightarrow> ((error + int list) \<times> redis) option" where
  "next_ids mgr [] r = Some (Inr [], r)"
| "next_ids mgr (m # ms) r =
     (case next_id mgr m r of
        None \<Rightarrow> None
      | Some (Inl e, r1) \<Rightarrow> Some (Inl e, r1)
      | Some (Inr i, r1) \<Rightarrow>
          (case next_ids mgr ms r1 of
             None \<Rightarrow> None
           | Some (Inl e, r2) \<Rightarrow> Some (Inl e, r2)
           | Some (Inr is, r2) \<Rightarrow> Some (Inr (i # is), r2)))"


section \<open>Models and instances\<close>

text \<open>
  A model class: its name and \<^verbatim>\<open>get_class_fields()\<close>, the fields the class declares,
  by name (\<^verbatim>\<open>id = RedisId()\<close> of \<^verbatim>\<open>RedisModel\<close> among them).
\<close>

record model_class =
  model_name :: string
  class_fields :: "(string \<times> field) list"

text \<open>
  An instance: \<^verbatim>\<open>__fields__\<close>, its own copy of each field, and the attributes set on
  it. An attribute that was never set is found on the class, where it is the field
  object.
\<close>

record model_inst =
  inst_class :: model_class
  inst_fields :: "(string \<times> field) list"
  inst_attrs :: "(string \<times> pyval) list"

text \<open>
  \<^verbatim>\<open>
  def __setattr__(self, key, value):
      super(RedisModel, self).__setattr__(key, value)
      if key != '__fields__' and key in self.__fields__:
          self.__fields__[key].value = value
  \<close>
\<close>

definition setattr :: "model_inst \<Rightarrow> string \<Rightarrow> pyval \<Rightarrow> model_inst" where
  "setattr self key v =
     self\<lparr>inst_attrs := AList.update key v (inst_attrs self),
          inst_fields := (case map_of (inst_fields self) key of
                       None \<Rightarrow> inst_fields self
                     | Some f \<Rightarrow> AList.update key (f\<lparr>value_f := v\<rparr>) (inst_fields self))\<rparr>"

text \<open>
  \<^verbatim>\<open>
  def _fill_fields_values(self, values_dict):
      fields = self.__fields__
      for name, value in values_dict.items():
          if name not in fields.keys():
              raise RedisModelsException(...)
          setattr(self, name, value)
  \<close>
\<close>

fun fill_fields_values :: "model_inst \<Rightarrow> (string \<times> pyval) list \<Rightarrow> error + model_inst" where
  "fill_fields_values self [] = Inr self"
| "fill_fields_values self ((name, v) # rest) =
     (if name \<notin> set (map fst (inst_fields self)) then Inl RedisModelsException
      else fill_fields_values (setattr self name v) rest)"

text \<open>\<^verbatim>\<open>RedisModel.__init__(**kwargs)\<close>: the fields are copies of the class's fields, then
  the keyword arguments are set.\<close>

definition new_instance :: "model_class \<Rightarrow> (string \<times> pyval) list \<Rightarrow> error + model_inst" where
  "new_instance cls kwargs =
     fill_fields_values
       \<lparr>inst_class = cls, inst_fields = map (\<lambda>(k, f). (k, copy f)) (class_fields cls), inst_attrs = []\<rparr>
       kwargs"


text \<open>
  \<^verbatim>\<open>
  def _deserialize_instance_field(self, model, field_name, raw_value):
      value = raw_value
      redis_field_val = getattr(model, field_name)
      if issubclass(redis_field_val.__class__, RedisField):
          value = redis_field_val.deserialize_value(raw_value, self.ignore_deserialization_errors)
      return value
  \<close>
  Called with a model class, \<^verbatim>\<open>getattr\<close> finds the class's field. The attributes of a
  class that are no inst_fields are not modelled: a name that is no field raises
  \<^verbatim>\<open>AttributeError\<close>.
\<close>

definition deserialize_instance_field :: "manager \<Rightarrow> model_class \<Rightarrow> string \<Rightarrow> pyval \<Rightarrow> error + pyval" where
  "deserialize_instance_field mgr cls field_name raw_value =
     (case map_of (class_fields cls) field_name of
        None \<Rightarrow> Inl AttributeError
      | Some f \<Rightarrow> deserialize_value f raw_value (ignore_deserialization_errors mgr))"







section \<open>The query\<close>

text \<open>
  The inner loop of \<^verbatim>\<open>_get_model_instances\<close>, over the fields of one record:
  \<^verbatim>\<open>
  tmp_instance = dict()
  allowed = True
  for field_name, raw_value in fields_dict.items():
      value = self._deserialize_instance_field(model, field_name, raw_value)
      allowed = allowed and self._filter_field_name(field_name, value, filters)
      tmp_instance[field_name] = value
      if not allowed:
          break
  \<close>
  \<open>deser\<close> is \<^verbatim>\<open>_deserialize_instance_field\<close> for the record's model; it is an argument
  so that the result holds for the relation inst_fields too, whose values it resolves by
  queries of their own.
\<close>

fun scan_fields ::
    "(string \<Rightarrow> pyval \<Rightarrow> error + pyval) \<Rightarrow> (string \<times> pyval) list \<Rightarrow> (string \<times> pyval) list \<Rightarrow>
     error + (bool \<times> (string \<times> pyval) list)" where
  "scan_fields deser filters [] = Inr (True, [])"
| "scan_fields deser filters ((field_name, raw_value) # rest) =
     (case deser field_name raw_value of
        Inl e \<Rightarrow> Inl e
      | Inr v \<Rightarrow>
          (case filter_field_name field_name v filters of
             Inl e \<Rightarrow> Inl e
           | Inr allowed \<Rightarrow>
               if \<not> allowed then Inr (False, [(field_name, v)])
               else
                 (case scan_fields deser filters rest of
                    Inl e \<Rightarrow> Inl e
                  | Inr (a, tmp_instance) \<Rightarrow> Inr (a, (field_name, v) # tmp_instance))))"

text \<open>
  The body of the outer loop, for one key and its value:
  \<^verbatim>\<open>
  prefix, model_name, instance_id = instance_key.split(':')
  model = self._get_registered_model_by_name(model_name)
  _ = int(instance_id)
  fields_dict = json.loads(fields_json)
  ...
  if allowed:
      res.append(model(**tmp_instance))
  \<close>
  The key matches \<^verbatim>\<open>prefix:Model:*\<close>, so the model found by name is the queried one.
\<close>

definition scan_record ::
    "(string \<Rightarrow> pyval \<Rightarrow> error + pyval) \<Rightarrow> model_class \<Rightarrow> (string \<times> pyval) list \<Rightarrow>
     string \<Rightarrow> rval \<Rightarrow> error + model_inst option" where
  "scan_record deser cls filters key fields_json =
     (case split_colon [] key of
        [p, mname, instance_id] \<Rightarrow>
          ebind (int_str instance_id) (\<lambda>n.
          ebind (json_loads fields_json) (\<lambda>fields_dict.
          ebind (scan_fields deser filters fields_dict) (\<lambda>(allowed, tmp_instance).
            if allowed then ebind (new_instance cls tmp_instance) (\<lambda>i. Inr (Some i))
            else Inr None)))
      | _ \<Rightarrow> Inl ValueError)"

fun scan_records ::
    "(string \<Rightarrow> pyval \<Rightarrow> error + pyval) \<Rightarrow> model_class \<Rightarrow> (string \<times> pyval) list \<Rightarrow>
     (string \<times> rval) list \<Rightarrow> error + model_inst list" where
  "scan_records deser cls filters [] = Inr []"
| "scan_records deser cls filters ((key, fields_json) # rest) =
     (case scan_record deser cls filters key fields_json of
        Inl e \<Rightarrow> Inl e
      | Inr found \<Rightarrow>
          (case scan_records deser cls filters rest of
             Inl e \<Rightarrow> Inl e
           | Inr res \<Rightarrow> Inr (case found of None \<Rightarrow> res | Some i \<Rightarrow> i # res)))"

text \<open>
  \<^verbatim>\<open>
  def _get_model_instances(self, model, filters):
      keys = self.get_keys(f'{self.prefix}:{model.__name__}:*')
      values = self.redis_instance.mget(keys)
      raw_instances = dict(zip(keys, values))
      res = list()
      for instance_key, fields_json in raw_instances.items():
          ...
      return res
  \<close>
\<close>

definition get_model_instances_with ::
    "(string \<Rightarrow> pyval \<Rightarrow> error + pyval) \<Rightarrow> manager \<Rightarrow> model_class \<Rightarrow> (string \<times> pyval) list \<Rightarrow>
     redis \<Rightarrow> error + model_inst list" where
  "get_model_instances_with deser mgr cls filters r =
     scan_records deser cls filters
       (filter (\<lambda>(k, v). startswith k (prefix mgr @ '':'' @ model_name cls @ '':'')) r)"

text \<open>\<^verbatim>\<open>query(model, **filters)\<close>, for a model whose fields are of the kinds above; the
  result is the list \<^verbatim>\<open>results\<close> of the \<^verbatim>\<open>RedisQuerySet\<close>.\<close>

definition query :: "manager \<Rightarrow> model_class \<Rightarrow> (string \<times> pyval) list \<Rightarrow> redis \<Rightarrow> error + model_inst list" where
  "query mgr cls filters r =
     get_model_instances_with (deserialize_instance_field mgr cls) mgr cls filters r"

section \<open>Notions used in the statements\<close>

text \<open>A text at which a number read by \<open>parse_num\<close> ends: the end of the string or a
  character that is no digit.\<close>

definition stops :: "string \<Rightarrow> bool" where
  "stops r = (case r of [] \<Rightarrow> True | c # cs \<Rightarrow> \<not> is_digit c)"

text \<open>The format \<^verbatim>\<open>YYYY.MM.DD-HH:MM:SS+UTC\<close> of the specification, filled with the
  calendar fields of a datetime as they stand.\<close>

definition utc_format :: "datetime \<Rightarrow> string" where
  "utc_format d =
     pad4 (year d) @ ''.'' @ pad2 (month d) @ ''.'' @ pad2 (day d) @ ''-'' @
     pad2 (hour d) @ '':'' @ pad2 (minute d) @ '':'' @ pad2 (second d) @ ''+UTC''"

text \<open>
  The values of a field kind's own type, in the form its wire format keeps: a string for
  String, an \<^verbatim>\<open>int\<close> or \<^verbatim>\<open>float\<close> for Number and Id, a \<^verbatim>\<open>bool\<close> for Boolean, a
  datetime in UTC with no microseconds for DateTime, a date that is no datetime for Date,
  both from the year 1000 on.
\<close>

definition round_trip_value :: "kind \<Rightarrow> pyval \<Rightarrow> bool" where
  "round_trip_value k v =
     (case k of
        KField \<Rightarrow> v \<noteq> PNone
      | KString \<Rightarrow> isinstance v [TStr]
      | KNumber \<Rightarrow> isinstance v [TInt, TFloat]
      | KId \<Rightarrow> isinstance v [TInt, TFloat]
      | KBool \<Rightarrow> isinstance v [TBool]
      | KDateTime \<Rightarrow>
          (case v of
             PDateTime d \<Rightarrow> microsecond d = 0 \<and> tzinfo d = Some 0 \<and> 1000 \<le> year d
           | _ \<Rightarrow> False)
      | KDate \<Rightarrow> (case v of PDate d \<Rightarrow> 1000 \<le> d_year d | _ \<Rightarrow> False))"


text \<open>
  A value passes the check of the choices in \<open>check_value\<close>: it is false, or there are
  no choices, or it is one of their keys.
\<close>

definition choices_admit :: "field \<Rightarrow> pyval \<Rightarrow> bool" where
  "choices_admit f v =
     (\<not> truthy v \<or> choices f = None \<or> choices f = Some [] \<or>
      py_in_keys v (map fst (the (choices f))) = Inr True)"

text \<open>A datetime or date that a Python object can hold.\<close>

definition well_formed :: "pyval \<Rightarrow> bool" where
  "well_formed v =
     (case v of
        PDateTime d \<Rightarrow> valid_datetime d
      | PDate d \<Rightarrow> valid_date (d_year d) (d_month d) (d_day d)
      | _ \<Rightarrow> True)"



text \<open>Midnight of 1 January 999, in UTC.\<close>

definition dt_year_999 :: datetime where
  "dt_year_999 = \<lparr>year = 999, month = 1, day = 1, hour = 0, minute = 0, second = 0,
                  microsecond = 0, tzinfo = Some 0\<rparr>"

text \<open>Three datetimes of 1 January 2020: noon in UTC, the same instant written at
  UTC+02:00, and noon in UTC with five microseconds.\<close>

definition dt_noon_utc :: datetime where
  "dt_noon_utc = \<lparr>year = 2020, month = 1, day = 1, hour = 12, minute = 0, second = 0,
                  microsecond = 0, tzinfo = Some 0\<rparr>"

definition dt_two_plus2 :: datetime where
  "dt_two_plus2 = \<lparr>year = 2020, month = 1, day = 1, hour = 14, minute = 0, second = 0,
                   microsecond = 0, tzinfo = Some 120\<rparr>"

definition dt_noon_micro :: datetime where
  "dt_noon_micro = \<lparr>year = 2020, month = 1, day = 1, hour = 12, minute = 0, second = 0,
                    microsecond = 5, tzinfo = Some 0\<rparr>"

text \<open>The values that are model instances.\<close>

fun is_model :: "pyval \<Rightarrow> bool" where
  "is_model (PModel n a) = True"
| "is_model v = False"

text \<open>The counter of a model as \<^verbatim>\<open>next_id\<close> reads it: \<^verbatim>\<open>int(stored_max_id or 0)\<close>.\<close>

definition counter :: "manager \<Rightarrow> string \<Rightarrow> redis \<Rightarrow> error + int" where
  "counter mgr m r = stored_or_0 (redis_get r (max_id_key mgr m))"

text \<open>The ids issued to the model \<open>m\<close>, in order, when the models \<open>ms\<close> asked in turn and
  got \<open>ids\<close>.\<close>

definition ids_for :: "string \<Rightarrow> string list \<Rightarrow> int list \<Rightarrow> int list" where
  "ids_for m ms ids = map snd (filter (\<lambda>(m', i). m' = m) (zip ms ids))"

text \<open>A manager with the default prefix, and the store as \<^verbatim>\<open>BaseRedisManager.__init__\<close>
  leaves an empty one: it calls \<^verbatim>\<open>release_lock\<close>.\<close>

definition test_mgr :: manager where
  "test_mgr = \<lparr>prefix = ''redis_test'', ignore_deserialization_errors = True\<rparr>"

definition fresh_store :: "manager \<Rightarrow> redis" where
  "fresh_store mgr = release_lock mgr []"

text \<open>
  A model with a nullable text field, \<^verbatim>\<open>class Note(RedisModel): text = RedisString()\<close>,
  and the store after \<^verbatim>\<open>Note().save()\<close> under the manager above: the lock, the
  counter and the record of the one instance, whose text is \<^verbatim>\<open>None\<close>.
\<close>

definition Note :: model_class where
  "Note = \<lparr>model_name = ''Note'',
           class_fields = [(''id'', new_field KId (Static PNone) None False),
                           (''text'', new_field KString (Static PNone) None True)]\<rparr>"

definition note_store :: redis where
  "note_store =
     [(''__lock__:redis_test'', RStr ''0''),
      (''max_id:redis_test:Note'', RStr ''1''),
      (''redis_test:Note:1'', RJson [(''id'', PInt 1), (''text'', PNone)])]"











section \<open>Properties of the fields\<close>

lemma check_value_nonnull:
  "v \<noteq> PNone \<Longrightarrow>
   check_value (f\<lparr>value_f := v\<rparr>) =
     (if truthy v \<and> choices f \<noteq> None \<and> choices f \<noteq> Some [] then
        (case py_in_keys v (map fst (the (choices f))) of
           Inl e \<Rightarrow> (Inl e, f\<lparr>value_f := v\<rparr>)
         | Inr b \<Rightarrow> if b then (Inr v, f\<lparr>value_f := v\<rparr>)
                    else (Inl (choice_error (map fst (the (choices f)))), f\<lparr>value_f := v\<rparr>))
      else (Inr v, f\<lparr>value_f := v\<rparr>))"
  by (auto simp: check_value_def Let_def split: sum.splits)

text \<open>
  Claim C4, as the specification states it: a Number field's \<^verbatim>\<open>clean\<close> and
  \<^verbatim>\<open>deserialize_value\<close> reject every value that is not an \<^verbatim>\<open>int\<close> or a \<^verbatim>\<open>float\<close>,
  also a false one. It fails: \<^verbatim>\<open>validate_type\<close> returns every false value as it is, so
  \<^verbatim>\<open>clean\<close> accepts the empty string.
\<close>

theorem number_clean_accepts_empty_string:
  "fst (clean ((new_field KNumber (Static PNone) None True)\<lparr>value_f := PStr []\<rparr>)) = Inr (PStr [])"
  by (simp add: clean_def RedisNumber_clean_def RedisField_clean_def check_value_def
      new_field_def validate_type_def Let_def)

text \<open>
  Claim C4, amended: for a Number field and a value \<open>v\<close> other than \<^verbatim>\<open>None\<close>,
  \<^item> if \<open>v\<close> is true and is no \<^verbatim>\<open>int\<close> or \<^verbatim>\<open>float\<close> (a \<^verbatim>\<open>bool\<close> is an \<^verbatim>\<open>int\<close>),
    \<^verbatim>\<open>clean\<close> raises, and \<^verbatim>\<open>deserialize_value\<close> raises too unless \<open>v\<close> is a string,
    which it parses;
  \<^item> if \<open>v\<close> is false, \<^verbatim>\<open>clean\<close> returns it as it is, and so does
    \<^verbatim>\<open>deserialize_value\<close> unless \<open>v\<close> is a string.
\<close>

theorem number_type_check:
  assumes k: "kind f = KNumber" and nn: "v \<noteq> PNone"
  shows "(truthy v \<and> \<not> isinstance v [TInt, TFloat] \<longrightarrow>
            fst (clean (f\<lparr>value_f := v\<rparr>)) \<in> {Inl PyException, Inl RedisModelsException, Inl TypeError} \<and>
            (\<not> isinstance v [TStr] \<longrightarrow> deserialize_value f v ign = Inl PyException)) \<and>
         (\<not> truthy v \<longrightarrow>
            fst (clean (f\<lparr>value_f := v\<rparr>)) = Inr v \<and>
            (\<not> isinstance v [TStr] \<longrightarrow> deserialize_value f v ign = Inr v))"
proof -
  have c1: "truthy v \<Longrightarrow> \<not> isinstance v [TInt, TFloat] \<Longrightarrow>
      fst (clean (f\<lparr>value_f := v\<rparr>)) \<in> {Inl PyException, Inl RedisModelsException, Inl TypeError}"
    using k nn
    by (simp add: clean_def RedisNumber_clean_def RedisField_clean_def check_value_nonnull
        validate_type_def py_in_keys_def choice_error_def split: sum.splits)
  have c2: "\<not> truthy v \<Longrightarrow> fst (clean (f\<lparr>value_f := v\<rparr>)) = Inr v"
    using k nn
    by (simp add: clean_def RedisNumber_clean_def RedisField_clean_def check_value_nonnull
        validate_type_def)
  have d: "\<not> isinstance v [TStr] \<Longrightarrow>
      deserialize_value f v ign = validate_type v [TInt, TFloat]"
    using k nn
    by (cases v) (simp_all add: deserialize_value_def RedisNumber_deserialize_value_def
        RedisField_deserialize_value_def ebind_def isinstance_def)
  show ?thesis using c1 c2 d by (auto simp: validate_type_def)
qed

theorem number_type_check_witness:
  "fst (clean ((new_field KNumber (Static PNone) None True)\<lparr>value_f := PList [PInt 1]\<rparr>))
     \<in> {Inl PyException, Inl RedisModelsException, Inl TypeError} \<and>
   deserialize_value (new_field KNumber (Static PNone) None True) (PList [PInt 1]) True
     = Inl PyException \<and>
   fst (clean ((new_field KNumber (Static PNone) None True)\<lparr>value_f := PList []\<rparr>)) = Inr (PList []) \<and>
   deserialize_value (new_field KNumber (Static PNone) None True) (PList []) True = Inr (PList [])"
  using number_type_check [of "new_field KNumber (Static PNone) None True" "PList [PInt 1]" True]
    number_type_check [of "new_field KNumber (Static PNone) None True" "PList []" True]
  by (simp add: new_field_def isinstance_def)


subsection \<open>Reading back what the formats write\<close>

lemma of_char_digit_char: "d < 10 \<Longrightarrow> (of_char (digit_char d) :: nat) = 48 + d"
  by (simp add: digit_char_def)

lemma is_digit_digit_char: "d < 10 \<Longrightarrow> is_digit (digit_char d)"
  by (simp add: is_digit_def of_char_digit_char)

lemma digit_val_digit_char: "d < 10 \<Longrightarrow> digit_val (digit_char d) = d"
  by (simp add: digit_val_def of_char_digit_char)

lemma digit_char_neq: "d < 10 \<Longrightarrow> \<not> is_digit c \<Longrightarrow> digit_char d \<noteq> c"
  using is_digit_digit_char by blast

lemma not_digit_seps:
  "\<not> is_digit CHR ''.''" "\<not> is_digit CHR ''-''" "\<not> is_digit CHR '':''" "\<not> is_digit CHR ''+''"
  "\<not> is_digit CHR '' ''"
  by (simp_all add: is_digit_def)

lemma takeWhile_stop: "list_all is_digit ds \<Longrightarrow> stops r \<Longrightarrow> takeWhile is_digit (ds @ r) = ds"
  by (induction ds) (auto simp: stops_def split: list.splits)

lemma dropWhile_stop: "list_all is_digit ds \<Longrightarrow> stops r \<Longrightarrow> dropWhile is_digit (ds @ r) = r"
  by (induction ds) (auto simp: stops_def split: list.splits)

lemma pad2_digits: "0 \<le> n \<Longrightarrow> n < 100 \<Longrightarrow> list_all is_digit (pad2 n)"
  by (simp add: pad2_def is_digit_digit_char)

lemma pad2_val: "0 \<le> n \<Longrightarrow> n < 100 \<Longrightarrow> int (nat_of_digits 0 (pad2 n)) = n"
  by (simp add: pad2_def digit_val_digit_char)

lemma pad4_digits: "0 \<le> n \<Longrightarrow> n < 10000 \<Longrightarrow> list_all is_digit (pad4 n)"
  by (simp add: pad4_def is_digit_digit_char)

lemma digits4: "(k::nat) div 1000 * 1000 + k div 100 mod 10 * 100 + k div 10 mod 10 * 10 + k mod 10 = k"
proof -
  have a: "k div 100 = k div 1000 * 10 + k div 100 mod 10"
    using div_mult_mod_eq[of "k div 100" 10] by (simp add: div_mult2_eq[symmetric])
  have b: "k div 10 = k div 100 * 10 + k div 10 mod 10"
    using div_mult_mod_eq[of "k div 10" 10] by (simp add: div_mult2_eq[symmetric])
  have c: "k = k div 10 * 10 + k mod 10" by simp
  have "k = (k div 100 * 10 + k div 10 mod 10) * 10 + k mod 10" using b c by simp
  also have "\<dots> = ((k div 1000 * 10 + k div 100 mod 10) * 10 + k div 10 mod 10) * 10 + k mod 10"
    using a by simp
  finally show ?thesis by (simp add: algebra_simps)
qed

lemma pad4_val: "0 \<le> n \<Longrightarrow> n < 10000 \<Longrightarrow> int (nat_of_digits 0 (pad4 n)) = n"
proof -
  assume a: "0 \<le> n" "n < 10000"
  define k where "k = nat n"
  have k: "k < 10000" "n = int k" using a by (simp_all add: k_def)
  have "k div 1000 < 10" using k by simp
  then have "nat_of_digits 0 (pad4 (int k)) = k div 1000 * 1000 + k div 100 mod 10 * 100 + k div 10 mod 10 * 10 + k mod 10"
    by (simp add: pad4_def digit_val_digit_char)
  then show ?thesis using digits4[of k] k by simp
qed

lemma parse_num_digits:
  "list_all is_digit ds \<Longrightarrow> stops r \<Longrightarrow> minlen \<le> length ds \<Longrightarrow> length ds \<le> maxlen \<Longrightarrow>
   lo \<le> int (nat_of_digits 0 ds) \<Longrightarrow> int (nat_of_digits 0 ds) \<le> hi \<Longrightarrow>
   parse_num minlen maxlen lo hi (ds @ r) = Inr (int (nat_of_digits 0 ds), r)"
  by (simp add: parse_num_def Let_def takeWhile_stop dropWhile_stop)

lemma length_pad2: "length (pad2 n) = 2" by (simp add: pad2_def)
lemma length_pad4: "length (pad4 n) = 4" by (simp add: pad4_def)

lemma parse_num_pad2:
  "0 \<le> n \<Longrightarrow> n < 100 \<Longrightarrow> lo \<le> n \<Longrightarrow> n \<le> hi \<Longrightarrow> stops r \<Longrightarrow>
   parse_num 1 2 lo hi (pad2 n @ r) = Inr (n, r)"
  using parse_num_digits[of "pad2 n" r 1 2 lo hi]
  by (simp add: pad2_digits pad2_val length_pad2)

lemma parse_num_pad4:
  "1 \<le> n \<Longrightarrow> n \<le> 9999 \<Longrightarrow> stops r \<Longrightarrow>
   parse_num 4 4 1 9999 (pad4 n @ r) = Inr (n, r)"
  using parse_num_digits[of "pad4 n" r 4 4 1 9999]
  by (simp add: pad4_digits pad4_val length_pad4)

lemma no_space_digits: "list_all is_digit ds \<Longrightarrow> CHR '' '' \<notin> set ds"
  by (induction ds) (auto simp: not_digit_seps)


lemma stops_simps [simp]: "stops []" "stops (c # cs) = (\<not> is_digit c)"
  by (simp_all add: stops_def)

lemma days_in_month_le: "days_in_month y m \<le> 31"
  by (simp add: days_in_month_def)

lemma ymd_roundtrip:
  assumes v: "valid_date y m d" and y: "1000 \<le> y" and r: "stops r" "CHR '' '' \<notin> set r"
  shows "strptime_ymd (pad4 y @ ''.'' @ pad2 m @ ''.'' @ pad2 d @ r) = Inr ((y, m, d), r)"
proof -
  have b: "1 \<le> y" "y \<le> 9999" "0 \<le> m" "m < 100" "1 \<le> m" "m \<le> 12" "0 \<le> d" "d < 100" "1 \<le> d"
    "d \<le> 31" "d \<le> days_in_month y m" "0 \<le> y" "y < 10000"
    using v y days_in_month_le[of y m] by (auto simp: valid_date_def)
  have sp: "\<not> list_ex (\<lambda>c. c = CHR '' '') (pad4 y @ ''.'' @ pad2 m @ ''.'' @ pad2 d @ r)"
    using r(2) no_space_digits[OF pad4_digits[OF b(12,13)]]
      no_space_digits[OF pad2_digits[OF b(3,4)]] no_space_digits[OF pad2_digits[OF b(7,8)]]
    by (auto simp: list_ex_iff)
  have p1: "parse_num 4 4 1 9999 (pad4 y @ CHR ''.'' # pad2 m @ CHR ''.'' # pad2 d @ r)
      = Inr (y, CHR ''.'' # pad2 m @ CHR ''.'' # pad2 d @ r)"
    using parse_num_pad4[OF b(1,2)] by (simp add: not_digit_seps)
  have p2: "parse_num (Suc 0) 2 1 12 (pad2 m @ CHR ''.'' # pad2 d @ r) = Inr (m, CHR ''.'' # pad2 d @ r)"
    using parse_num_pad2[OF b(3,4,5,6)] by (simp add: not_digit_seps)
  have p3: "parse_num (Suc 0) 2 1 31 (pad2 d @ r) = Inr (d, r)"
    using parse_num_pad2[OF b(7,8,9,10)] r(1) by simp
  show ?thesis
    using sp by (simp add: strptime_ymd_def ebind_def expect_def p1 p2 p3 b(11))
qed

lemma strftime_Y_pad4:
  assumes "1000 \<le> y" "y \<le> 9999"
  shows "strftime_Y y = pad4 y"
proof -
  define n where "n = nat y"
  have n: "1000 \<le> n" "n \<le> 9999" using assms by (simp_all add: n_def)
  have d1: "n div 1000 < 10" using n by simp
  have d2: "\<not> n div 100 < 10" using n by simp
  have d3: "\<not> n div 10 < 10" using n by simp
  have d4: "\<not> n < 10" using n by simp
  have e2: "n div 100 div 10 = n div 1000" by (simp add: div_mult2_eq[symmetric])
  have e3: "n div 10 div 10 = n div 100" by (simp add: div_mult2_eq[symmetric])
  have a: "str_nat (n div 1000) = [digit_char (n div 1000)]"
    using d1 by (subst str_nat.simps) simp
  have b: "str_nat (n div 100) = str_nat (n div 1000) @ [digit_char (n div 100 mod 10)]"
    using d2 e2 by (subst str_nat.simps) simp
  have c: "str_nat (n div 10) = str_nat (n div 100) @ [digit_char (n div 10 mod 10)]"
    using d3 e3 by (subst str_nat.simps) simp
  have d: "str_nat n = str_nat (n div 10) @ [digit_char (n mod 10)]"
    using d4 by (subst str_nat.simps) simp
  show ?thesis by (simp add: strftime_Y_def pad4_def n_def[symmetric] a b c d)
qed

lemma strftime_ymd_late:
  "valid_date y m d \<Longrightarrow> 1000 \<le> y \<Longrightarrow>
   strftime_ymd y m d = Inr (pad4 y @ ''.'' @ pad2 m @ ''.'' @ pad2 d)"
  by (simp add: strftime_ymd_def strftime_Y_pad4 valid_date_def)

lemma strftime_datetime_utc:
  "valid_datetime d \<Longrightarrow> 1000 \<le> year d \<Longrightarrow> strftime_datetime (replace_utc d) = Inr (utc_format d)"
  by (simp add: strftime_datetime_def replace_utc_def valid_datetime_def strftime_ymd_late
      ebind_def utc_format_def)

lemma strptime_datetime_utc:
  assumes v: "valid_datetime d" and y: "1000 \<le> year d"
  shows "strptime_datetime (utc_format d) =
     Inr (d\<lparr>microsecond := 0, tzinfo := None\<rparr>)"
proof -
  let ?r = "CHR ''-'' # pad2 (hour d) @ CHR '':'' # pad2 (minute d) @ CHR '':'' # pad2 (second d) @ ''+UTC''"
  have b: "valid_date (year d) (month d) (day d)" "0 \<le> hour d" "hour d < 100" "hour d \<le> 23"
    "0 \<le> minute d" "minute d < 100" "minute d \<le> 59" "0 \<le> second d" "second d < 100" "second d \<le> 59"
    using v by (auto simp: valid_datetime_def)
  have sp: "CHR '' '' \<notin> set ?r"
    using no_space_digits[OF pad2_digits[OF b(2,3)]] no_space_digits[OF pad2_digits[OF b(5,6)]]
      no_space_digits[OF pad2_digits[OF b(8,9)]]
    by auto
  have y0: "strptime_ymd (utc_format d) = Inr ((year d, month d, day d), ?r)"
    using ymd_roundtrip[OF b(1) y _ sp] by (simp add: utc_format_def not_digit_seps)
  have pH: "parse_num (Suc 0) 2 0 23 (pad2 (hour d) @ CHR '':'' # pad2 (minute d) @ CHR '':'' # pad2 (second d) @ ''+UTC'')
      = Inr (hour d, CHR '':'' # pad2 (minute d) @ CHR '':'' # pad2 (second d) @ ''+UTC'')"
    using parse_num_pad2[OF b(2,3) b(2) b(4)] by (simp add: not_digit_seps)
  have pM: "parse_num (Suc 0) 2 0 59 (pad2 (minute d) @ CHR '':'' # pad2 (second d) @ ''+UTC'')
      = Inr (minute d, CHR '':'' # pad2 (second d) @ ''+UTC'')"
    using parse_num_pad2[OF b(5,6) b(5) b(7)] by (simp add: not_digit_seps)
  have pS: "parse_num (Suc 0) 2 0 59 (pad2 (second d) @ ''+UTC'') = Inr (second d, ''+UTC'')"
    using parse_num_pad2[OF b(8,9) b(8) b(10)] by (simp add: not_digit_seps)
  have lw: "lower ''UTC'' = ''utc''" by code_simp
  show ?thesis
    by (simp add: strptime_datetime_def y0 ebind_def expect_def pH pM pS lw)
qed




lemma datetime_clean_text:
  assumes k: "kind f = KDateTime" and c: "choices f = None"
    and v: "valid_datetime d" and y: "1000 \<le> year d"
  shows "fst (clean (f\<lparr>value_f := PDateTime d\<rparr>)) = Inr (PStr (utc_format d))"
  using k c
  by (simp add: clean_def RedisDateTime_clean_def RedisField_clean_def check_value_nonnull
      validate_type_def isinstance_def ebind_def strftime_datetime_utc[OF v y])

lemma datetime_deserialize_text:
  assumes k: "kind f = KDateTime" and v: "valid_datetime d" and y: "1000 \<le> year d"
  shows "deserialize_value f (PStr (utc_format d)) ign
           = Inr (PDateTime (d\<lparr>microsecond := 0, tzinfo := Some 0\<rparr>))"
proof -
  have ne: "utc_format d \<noteq> []" by (simp add: utc_format_def pad4_def)
  show ?thesis
    using k ne
    by (simp add: deserialize_value_def RedisDateTime_deserialize_value_def
        RedisField_deserialize_value_def validate_type_def isinstance_def ebind_def
        strptime_datetime_utc[OF v y] replace_utc_def)
qed

lemma pad_eval:
  "pad2 0 = ''00''" "pad2 1 = ''01''" "pad2 12 = ''12''" "pad2 14 = ''14''" "pad4 2020 = ''2020''"
  by code_simp+

lemma example_datetimes_valid:
  "valid_datetime dt_noon_utc" "valid_datetime dt_two_plus2" "valid_datetime dt_noon_micro"
  by (simp_all add: valid_datetime_def valid_date_def days_in_month_def dt_noon_utc_def
      dt_two_plus2_def dt_noon_micro_def)

lemma example_datetimes_text:
  "utc_format dt_noon_utc = ''2020.01.01-12:00:00+UTC''"
  "utc_format dt_two_plus2 = ''2020.01.01-14:00:00+UTC''"
  "utc_format dt_noon_micro = ''2020.01.01-12:00:00+UTC''"
  by (simp_all add: utc_format_def dt_noon_utc_def dt_two_plus2_def dt_noon_micro_def pad_eval)

text \<open>
  Claim C6, as the specification states it: \<^verbatim>\<open>clean\<close> writes a timezone-aware datetime
  normalised to UTC, so that two datetimes of the same instant in different zones get
  the same text. It fails: \<^verbatim>\<open>replace(tzinfo=utc)\<close> changes the zone and keeps the
  fields. Noon in UTC and 14:00 at UTC+02:00 are the same instant and get two texts.
\<close>

theorem datetime_clean_same_instant_differs:
  "datetime_eq dt_noon_utc dt_two_plus2 \<and>
   fst (clean ((new_field KDateTime (Static PNone) None True)\<lparr>value_f := PDateTime dt_noon_utc\<rparr>))
     = Inr (PStr ''2020.01.01-12:00:00+UTC'') \<and>
   fst (clean ((new_field KDateTime (Static PNone) None True)\<lparr>value_f := PDateTime dt_two_plus2\<rparr>))
     = Inr (PStr ''2020.01.01-14:00:00+UTC'')"
proof -
  have e: "datetime_eq dt_noon_utc dt_two_plus2"
    by (simp add: datetime_eq_def dt_micros_def dt_noon_utc_def dt_two_plus2_def)
  have a: "fst (clean ((new_field KDateTime (Static PNone) None True)\<lparr>value_f := PDateTime dt_noon_utc\<rparr>))
     = Inr (PStr (utc_format dt_noon_utc))"
    using datetime_clean_text[of "new_field KDateTime (Static PNone) None True" dt_noon_utc]
      example_datetimes_valid
    by (simp add: new_field_def dt_noon_utc_def)
  have b: "fst (clean ((new_field KDateTime (Static PNone) None True)\<lparr>value_f := PDateTime dt_two_plus2\<rparr>))
     = Inr (PStr (utc_format dt_two_plus2))"
    using datetime_clean_text[of "new_field KDateTime (Static PNone) None True" dt_two_plus2]
      example_datetimes_valid
    by (simp add: new_field_def dt_two_plus2_def)
  show ?thesis using e a b example_datetimes_text by simp
qed

text \<open>
  Claim C6, amended: for every datetime \<open>d\<close>, aware or naive, from the year 1000 on, the
  \<^verbatim>\<open>clean\<close> of a DateTime field without choices writes the calendar fields of \<open>d\<close> as
  they stand in the format \<^verbatim>\<open>YYYY.MM.DD-HH:MM:SS+UTC\<close> (the zone of \<open>d\<close> is replaced
  by UTC, not converted, and the microseconds are dropped), so two datetimes with the
  same calendar fields get the same text; \<^verbatim>\<open>deserialize_value\<close> reads that text back
  to the same fields, tagged UTC.
\<close>

theorem datetime_clean_keeps_wall_clock:
  assumes k: "kind f = KDateTime" and c: "choices f = None"
    and v: "valid_datetime d" and y: "1000 \<le> year d"
  shows "fst (clean (f\<lparr>value_f := PDateTime d\<rparr>)) = Inr (PStr (utc_format d)) \<and>
         deserialize_value f (PStr (utc_format d)) ign
           = Inr (PDateTime (d\<lparr>microsecond := 0, tzinfo := Some 0\<rparr>))"
  using datetime_clean_text[OF k c v y] datetime_deserialize_text[OF k v y] by simp

theorem datetime_clean_keeps_wall_clock_witness:
  "fst (clean ((new_field KDateTime (Static PNone) None True)\<lparr>value_f := PDateTime dt_two_plus2\<rparr>))
     = Inr (PStr ''2020.01.01-14:00:00+UTC'') \<and>
   deserialize_value (new_field KDateTime (Static PNone) None True)
       (PStr ''2020.01.01-14:00:00+UTC'') True
     = Inr (PDateTime (dt_two_plus2\<lparr>microsecond := 0, tzinfo := Some 0\<rparr>))"
  using datetime_clean_keeps_wall_clock
      [of "new_field KDateTime (Static PNone) None True" dt_two_plus2 True]
    example_datetimes_valid example_datetimes_text
  by (simp add: new_field_def dt_two_plus2_def)




text \<open>
  The values of the lemma above are accepted: \<^verbatim>\<open>clean\<close> returns for each of them
  that passes the check of the choices.
\<close>

lemma RedisField_clean_admitted:
  "v \<noteq> PNone \<Longrightarrow> choices_admit f v \<Longrightarrow>
   RedisField_clean (f\<lparr>value_f := v\<rparr>) = (Inr v, f\<lparr>value_f := v\<rparr>)"
  by (auto simp: RedisField_clean_def check_value_nonnull choices_admit_def split: sum.splits)

lemma round_trip_values_accepted:
  assumes rt: "round_trip_value (kind f) v" and ch: "choices_admit f v" and wf: "well_formed v"
  shows "\<exists>c. fst (clean (f\<lparr>value_f := v\<rparr>)) = Inr c"
proof -
  have nn: "v \<noteq> PNone" using rt by (cases "kind f") (auto simp: round_trip_value_def isinstance_def)
  note fc = RedisField_clean_admitted[OF nn ch]
  show ?thesis
  proof (cases "kind f")
    case KField
    then show ?thesis by (simp add: clean_def fc)
  next
    case KString
    then obtain s where s: "v = PStr s" using rt by (cases v) (auto simp: round_trip_value_def isinstance_def)
    show ?thesis using KString fc by (simp add: s clean_def RedisString_clean_def)
  next
    case KNumber
    then have i: "isinstance v [TInt, TFloat]" using rt by (simp add: round_trip_value_def)
    show ?thesis using KNumber i by (simp add: clean_def RedisNumber_clean_def fc validate_type_def)
  next
    case KId
    then have i: "isinstance v [TInt, TFloat]" using rt by (simp add: round_trip_value_def)
    show ?thesis using KId i by (simp add: clean_def RedisNumber_clean_def fc validate_type_def)
  next
    case KBool
    then obtain b where b: "v = PBool b" using rt by (cases v) (auto simp: round_trip_value_def isinstance_def)
    show ?thesis using KBool fc
      by (simp add: b clean_def RedisBool_clean_def RedisNumber_clean_def validate_type_def
          isinstance_def ebind_def)
  next
    case KDateTime
    then obtain d where d: "v = PDateTime d" and y: "1000 \<le> year d"
      using rt by (cases v) (auto simp: round_trip_value_def)
    have vd: "valid_datetime d" using wf by (simp add: well_formed_def d)
    show ?thesis using KDateTime fc strftime_datetime_utc[OF vd y]
      by (simp add: d clean_def RedisDateTime_clean_def validate_type_def isinstance_def ebind_def)
  next
    case KDate
    then obtain d where d: "v = PDate d" and y: "1000 \<le> d_year d"
      using rt by (cases v) (auto simp: round_trip_value_def)
    have vd: "valid_date (d_year d) (d_month d) (d_day d)" using wf by (simp add: well_formed_def d)
    show ?thesis using KDate fc strftime_ymd_late[OF vd y]
      by (simp add: d clean_def RedisDate_clean_def validate_type_def isinstance_def ebind_def)
  qed
qed

text \<open>
  A year below 1000 is written with fewer than four digits, and \<^verbatim>\<open>strptime\<close> does
  not read it back.
\<close>

lemma datetime_before_1000_not_read_back:
  "fst (clean ((new_field KDateTime (Static PNone) None True)\<lparr>value_f := PDateTime dt_year_999\<rparr>))
     = Inr (PStr ''999.01.01-00:00:00+UTC'') \<and>
   deserialize_value (new_field KDateTime (Static PNone) None True)
       (PStr ''999.01.01-00:00:00+UTC'') True
     = Inl ValueError"
  by code_simp

text \<open>
  A Decimal field holding \<^verbatim>\<open>Decimal('0.1')\<close> gives back the \<^verbatim>\<open>Decimal\<close> of the
  nearest binary floating-point number, which is another number.
\<close>

lemma decimal_tenth_comes_back_rounded:
  "fst (RedisDecimal_clean ((new_field KField (Static PNone) None True)\<lparr>value_f := PDecimal (1 / 10)\<rparr>))
     = Inr (PFloat (3602879701896397 / 36028797018963968)) \<and>
   RedisDecimal_deserialize_value (new_field KField (Static PNone) None True)
       (PFloat (3602879701896397 / 36028797018963968)) True
     = Inr (PDecimal (3602879701896397 / 36028797018963968)) \<and>
   py_eq (PDecimal (3602879701896397 / 36028797018963968)) (PDecimal (1 / 10)) = Inr False"
  by code_simp






section \<open>Properties of the filters\<close>

lemma py_eq_int_plain:
  "\<not> is_model x \<Longrightarrow> py_eq (PInt k) x = Inr (num_val x = Some (of_int k))"
  by (cases x) auto

lemma py_in_list_ints:
  "\<not> is_model x \<Longrightarrow>
   py_in_list x (map PInt ks) = Inr (\<exists>k\<in>set ks. num_val x = Some (of_int k))"
  by (induction ks) (simp_all add: py_eq_int_plain del: py_eq.simps)

lemma methods:
  "map_of FILTER_METHODS ''exact'' = Some m_exact"
  "map_of FILTER_METHODS ''gt'' = Some py_gt"
  "map_of FILTER_METHODS ''gte'' = Some py_gte"
  "map_of FILTER_METHODS ''lt'' = Some py_lt"
  "map_of FILTER_METHODS ''lte'' = Some py_lte"
  "map_of FILTER_METHODS ''iexact'' = Some m_iexact"
  "map_of FILTER_METHODS ''startswith'' = Some py_startswith"
  "map_of FILTER_METHODS ''endswith'' = Some py_endswith"
  "map_of FILTER_METHODS ''istartswith'' = Some m_istartswith"
  "map_of FILTER_METHODS ''iendswith'' = Some m_iendswith"
  "map_of FILTER_METHODS ''range'' = Some m_range"
  by (simp_all add: FILTER_METHODS_def)

lemma filter_nested_range_int:
  "filter_nested x [] ''range'' (PInt n) = m_range x (PInt n)"
  by (cases x) (simp_all add: filter_nested_def filter_value_def methods)

text \<open>
  Claim C8, as the specification states it: with a numeric span as operand, a lower and
  an upper bound, the operator \<^verbatim>\<open>range\<close> matches exactly the values within the span.
  It fails: the operator is \<^verbatim>\<open>x in range(y)\<close>, and \<^verbatim>\<open>range\<close> of a pair raises
  \<^verbatim>\<open>TypeError\<close>; 5 lies between 1 and 10 and the filter does not match it.
\<close>

theorem range_of_pair_raises:
  "filter_nested (PInt 5) [] ''range'' (PList [PInt 1, PInt 10]) = Inl TypeError"
  by (simp add: filter_nested_def filter_value_def methods m_range_def)

text \<open>
  Claim C8, amended: for every record value \<open>x\<close> that is no model instance and every
  integer operand \<open>n\<close>, a filter with the operator \<^verbatim>\<open>range\<close> matches the record exactly
  when \<open>x\<close> is a number equal to an integer \<open>k\<close> with \<open>0 \<le> k < n\<close>; with a pair of bounds
  as operand it raises \<^verbatim>\<open>TypeError\<close>.
\<close>

theorem range_matches_below_operand:
  assumes "\<not> is_model x"
  shows "filter_nested x [] ''range'' (PInt n)
           = Inr (\<exists>k. 0 \<le> k \<and> k < n \<and> num_val x = Some (of_int k)) \<and>
         filter_nested x [] ''range'' (PList [lo, hi]) = Inl TypeError"
proof -
  have "m_range x (PInt n) = Inr (\<exists>k\<in>set [0 .. n - 1]. num_val x = Some (of_int k))"
    using assms by (simp add: m_range_def py_in_list_ints)
  also have "(\<exists>k\<in>set [0 .. n - 1]. num_val x = Some (of_int k))
      = (\<exists>k. 0 \<le> k \<and> k < n \<and> num_val x = Some (of_int k))"
    by auto
  finally have a: "filter_nested x [] ''range'' (PInt n)
           = Inr (\<exists>k. 0 \<le> k \<and> k < n \<and> num_val x = Some (of_int k))"
    by (simp add: filter_nested_range_int)
  have b: "filter_nested x [] ''range'' (PList [lo, hi]) = Inl TypeError"
    by (cases x) (simp_all add: filter_nested_def filter_value_def methods m_range_def)
  show ?thesis using a b by simp
qed

theorem range_matches_below_operand_witness:
  "filter_nested (PInt 5) [] ''range'' (PInt 10) = Inr True \<and>
   filter_nested (PInt 12) [] ''range'' (PInt 10) = Inr False \<and>
   filter_nested (PInt 5) [] ''range'' (PList [PInt 1, PInt 10]) = Inl TypeError"
  using range_matches_below_operand [of "PInt 5" 10 "PInt 1" "PInt 10"]
    range_matches_below_operand [of "PInt 12" 10 "PInt 1" "PInt 10"]
  by simp

lemma filter_chain_None: "filter_chain PNone ns = Inr PNone"
  by (induction ns) simp_all

lemma filter_chain_append:
  "filter_chain v (a @ b) = ebind (filter_chain v a) (\<lambda>w. filter_chain w b)"
  by (induction a arbitrary: v) (auto simp: ebind_def split: pyval.splits option.splits)

lemma filter_nested_null:
  assumes "filter_chain v ns1 = Inr PNone"
  shows "filter_nested v (ns1 @ ns2) ft fby = filter_value PNone ft fby"
  using assms by (simp add: filter_nested_def filter_chain_append ebind_def filter_chain_None)

lemma filter_value_null_exact:
  "\<not> is_model fby \<Longrightarrow> filter_value PNone ''exact'' fby = Inr (fby = PNone)"
  by (cases fby) (auto simp: filter_value_def methods m_exact_def)

text \<open>
  Claim C7, as the specification states it: with a nested field path and an operator
  other than \<^verbatim>\<open>isnull\<close>, a null value along the chain makes the predicate fail to match
  without an error. It fails: the operator is applied to \<^verbatim>\<open>None\<close>, and \<^verbatim>\<open>None > 3\<close>
  raises \<^verbatim>\<open>TypeError\<close>.
\<close>

theorem nested_null_gt_raises:
  "filter_nested (PModel ''ForeignKeyCheckModel'' [(''task_challenge'', PNone)])
     [''task_challenge'', ''task_id''] ''gt'' (PInt 3) = Inl TypeError"
  by (simp add: filter_nested_def filter_value_def methods py_gt_def)

text \<open>
  Claim C7, amended: for a predicate with a nested field path, when a value along the
  chain is null the rest of the chain is skipped and the operator is applied to
  \<^verbatim>\<open>None\<close> itself. With \<^verbatim>\<open>exact\<close> and an operand that is no model instance the
  predicate matches exactly when the operand is \<^verbatim>\<open>None\<close>, and nothing is raised; with
  \<^verbatim>\<open>gt\<close>, \<^verbatim>\<open>gte\<close>, \<^verbatim>\<open>lt\<close>, \<^verbatim>\<open>lte\<close> it raises \<^verbatim>\<open>TypeError\<close>, and with \<^verbatim>\<open>iexact\<close>,
  \<^verbatim>\<open>startswith\<close>, \<^verbatim>\<open>endswith\<close>, \<^verbatim>\<open>istartswith\<close>, \<^verbatim>\<open>iendswith\<close> it raises
  \<^verbatim>\<open>AttributeError\<close>. After an \<^verbatim>\<open>exact\<close> predicate the other predicates on the same
  field are still evaluated; when the field's predicates do not all match, the record
  is given up and the fields after it are not read.
\<close>

theorem nested_null_applies_operator_to_null:
  assumes "filter_chain v ns1 = Inr PNone"
  shows "filter_nested v (ns1 @ ns2) ft fby = filter_value PNone ft fby \<and>
         (\<not> is_model fby \<longrightarrow> filter_nested v (ns1 @ ns2) ''exact'' fby = Inr (fby = PNone)) \<and>
         (ft \<in> {''gt'', ''gte'', ''lt'', ''lte''} \<longrightarrow>
            filter_nested v (ns1 @ ns2) ft fby = Inl TypeError) \<and>
         (ft \<in> {''iexact'', ''startswith'', ''endswith'', ''istartswith'', ''iendswith''} \<longrightarrow>
            filter_nested v (ns1 @ ns2) ft fby = Inl AttributeError) \<and>
         (\<not> is_model fby \<and> split_filtering p = (name # ns1 @ ns2, ''exact'') \<longrightarrow>
            filter_field_name name v ((p, fby) # rest)
              = (case filter_field_name name v rest of
                   Inl e \<Rightarrow> Inl e
                 | Inr b \<Rightarrow> Inr (fby = PNone \<and> b))) \<and>
         (deser name raw = Inr v \<and> filter_field_name name v filters = Inr False \<longrightarrow>
            scan_fields deser filters ((name, raw) # later) = Inr (False, [(name, v)]))"
proof -
  note a = filter_nested_null[OF assms]
  have e: "\<not> is_model fby \<Longrightarrow> filter_nested v (ns1 @ ns2) ''exact'' fby = Inr (fby = PNone)"
    by (simp add: a filter_value_null_exact)
  have t: "ft \<in> {''gt'', ''gte'', ''lt'', ''lte''} \<Longrightarrow>
      filter_nested v (ns1 @ ns2) ft fby = Inl TypeError"
    by (auto simp: a filter_value_def methods py_gt_def py_gte_def py_lt_def py_lte_def)
  have u: "ft \<in> {''iexact'', ''startswith'', ''endswith'', ''istartswith'', ''iendswith''} \<Longrightarrow>
      filter_nested v (ns1 @ ns2) ft fby = Inl AttributeError"
    by (auto simp: a filter_value_def methods m_iexact_def m_istartswith_def m_iendswith_def)
  have f: "\<not> is_model fby \<Longrightarrow> split_filtering p = (name # ns1 @ ns2, ''exact'') \<Longrightarrow>
      filter_field_name name v ((p, fby) # rest)
        = (case filter_field_name name v rest of
             Inl e \<Rightarrow> Inl e
           | Inr b \<Rightarrow> Inr (fby = PNone \<and> b))"
    by (simp add: e)
  have s: "deser name raw = Inr v \<Longrightarrow> filter_field_name name v filters = Inr False \<Longrightarrow>
      scan_fields deser filters ((name, raw) # later) = Inr (False, [(name, v)])"
    by simp
  show ?thesis using a e t u f s by blast
qed

theorem nested_null_applies_operator_to_null_witness:
  "filter_nested (PModel ''ForeignKeyCheckModel'' [(''task_challenge'', PNone)])
     [''task_challenge'', ''task_id''] ''exact'' (PInt 3) = Inr False \<and>
   filter_nested (PModel ''ForeignKeyCheckModel'' [(''task_challenge'', PNone)])
     [''task_challenge'', ''task_id''] ''lte'' (PInt 3) = Inl TypeError \<and>
   filter_nested (PModel ''ForeignKeyCheckModel'' [(''task_challenge'', PNone)])
     [''task_challenge'', ''task_id''] ''iexact'' (PStr ''a'') = Inl AttributeError"
proof -
  let ?v = "PModel ''ForeignKeyCheckModel'' [(''task_challenge'', PNone)]"
  have c: "filter_chain ?v [''task_challenge''] = Inr PNone"
    by simp
  note t = nested_null_applies_operator_to_null [OF c, where ?ns2.0 = "[''task_id'']"
      and name = "''nested''" and p = "''nested''" and rest = "[]" and raw = PNone
      and deser = "\<lambda>n r. Inr r" and filters = "[]" and later = "[]"]
  have "filter_nested ?v ([''task_challenge''] @ [''task_id'']) ''exact'' (PInt 3) = Inr (PInt 3 = PNone)"
    using t [where ft = "''lte''" and fby = "PInt 3", THEN conjunct2, THEN conjunct1] by simp
  moreover have "filter_nested ?v ([''task_challenge''] @ [''task_id'']) ''lte'' (PInt 3) = Inl TypeError"
    using t [where ft = "''lte''" and fby = "PInt 3", THEN conjunct2, THEN conjunct2, THEN conjunct1]
    by simp
  moreover have "filter_nested ?v ([''task_challenge''] @ [''task_id'']) ''iexact'' (PStr ''a'')
      = Inl AttributeError"
    using t [where ft = "''iexact''" and fby = "PStr ''a''", THEN conjunct2, THEN conjunct2,
        THEN conjunct2, THEN conjunct1]
    by simp
  ultimately show ?thesis by simp
qed


section \<open>Properties of the id allocation\<close>

lemma nat_of_digits_snoc: "nat_of_digits acc (xs @ [c]) = nat_of_digits acc xs * 10 + digit_val c"
  by (induction xs arbitrary: acc) simp_all

lemma str_nat_digits: "list_all is_digit (str_nat n)"
proof (induction n rule: str_nat.induct)
  case (1 n)
  show ?case
  proof (cases "n < 10")
    case True
    then show ?thesis by (subst str_nat.simps) (simp add: is_digit_digit_char)
  next
    case False
    then show ?thesis using 1 by (subst str_nat.simps) (simp add: is_digit_digit_char)
  qed
qed

lemma str_nat_nonempty: "str_nat n \<noteq> []"
  by (subst str_nat.simps) simp

lemma str_nat_val: "nat_of_digits 0 (str_nat n) = n"
proof (induction n rule: str_nat.induct)
  case (1 n)
  show ?case
  proof (cases "n < 10")
    case True
    then show ?thesis by (subst str_nat.simps) (simp add: digit_val_digit_char)
  next
    case False
    then show ?thesis using 1
      by (subst str_nat.simps) (simp add: nat_of_digits_snoc digit_val_digit_char)
  qed
qed

lemma digit_not_special:
  "is_digit c \<Longrightarrow> c \<noteq> CHR ''_'' \<and> c \<noteq> CHR '' '' \<and> c \<noteq> CHR ''-'' \<and> c \<noteq> CHR ''+'' \<and>
     \<not> ((9::nat) \<le> of_char c \<and> of_char c \<le> (13::nat))"
  by (auto simp: is_digit_def)

lemma digits_not_special:
  "list_all is_digit s \<Longrightarrow>
   \<not> list_ex (\<lambda>c. c = CHR ''_'' \<or> c = CHR '' '' \<or> ((9::nat) \<le> of_char c \<and> of_char c \<le> (13::nat))) s"
  by (induction s) (auto dest: digit_not_special)

lemma int_str_digits:
  assumes d: "list_all is_digit s" and ne: "s \<noteq> []"
  shows "int_str s = Inr (int (nat_of_digits 0 s))"
proof -
  obtain c cs where s: "s = c # cs" using ne by (cases s) auto
  have c: "c \<noteq> CHR ''-''" "c \<noteq> CHR ''+''" using d digit_not_special[of c] by (simp_all add: s)
  have w: "\<not> list_ex (\<lambda>c. c = CHR ''_'' \<or> c = CHR '' '' \<or> ((9::nat) \<le> of_char c \<and> of_char c \<le> (13::nat))) s"
    by (rule digits_not_special[OF d])
  show ?thesis
    unfolding int_str_def using w d c by (simp add: s)
qed

lemma int_str_str_int: "int_str (str_int i) = Inr i"
proof (cases "i < 0")
  case False
  then show ?thesis
    by (simp add: str_int_def int_str_digits str_nat_digits str_nat_nonempty str_nat_val)
next
  case True
  have "\<not> list_ex (\<lambda>c. c = CHR ''_'' \<or> c = CHR '' '' \<or> ((9::nat) \<le> of_char c \<and> of_char c \<le> (13::nat)))
      (CHR ''-'' # str_nat (nat (- i)))"
    using digits_not_special[OF str_nat_digits] by simp
  then show ?thesis using True
    by (simp add: str_int_def int_str_def str_nat_digits str_nat_nonempty str_nat_val)
qed

lemma str_int_nonempty: "str_int i \<noteq> []"
  by (simp add: str_int_def str_nat_nonempty)

lemma redis_get_set: "redis_get (redis_set r k v) k' = (if k' = k then Some v else redis_get r k')"
  by (simp add: redis_get_def redis_set_def update_conv')

lemma lock_key_neq: "lock_key mgr \<noteq> max_id_key mgr m"
  by (simp add: lock_key_def max_id_key_def)

lemma max_id_key_inj: "max_id_key mgr m = max_id_key mgr m' \<longleftrightarrow> m = m'"
  by (simp add: max_id_key_def)

lemma wait_for_lock_free:
  "is_locked mgr r = Inr False \<Longrightarrow>
   wait_for_lock mgr r = Some (Inr (), redis_set r (lock_key mgr) (RStr (str_int 1)))"
  by (subst wait_for_lock.simps) simp

lemma is_locked_release: "is_locked mgr (release_lock mgr r) = Inr False"
  by (simp add: is_locked_def release_lock_def redis_get_set int_str_str_int ebind_def)

lemma counter_release: "counter mgr m (release_lock mgr r) = counter mgr m r"
  using lock_key_neq[of mgr m] by (auto simp: counter_def release_lock_def redis_get_set)

lemma counter_set_lock: "counter mgr m (redis_set r (lock_key mgr) v) = counter mgr m r"
  using lock_key_neq[of mgr m] by (auto simp: counter_def redis_get_set)

lemma counter_set_counter:
  "counter mgr m' (redis_set r (max_id_key mgr m) (RStr (str_int i)))
     = (if m' = m then Inr i else counter mgr m' r)"
  by (simp add: counter_def redis_get_set max_id_key_inj stored_or_0_def str_int_nonempty int_str_str_int)

lemma next_id_step:
  assumes "is_locked mgr r = Inr False" and "counter mgr m r = Inr c"
  shows "\<exists>r'. next_id mgr m r = Some (Inr (c + 1), r') \<and> is_locked mgr r' = Inr False \<and>
           counter mgr m r' = Inr (c + 1) \<and>
           (\<forall>m'. m' \<noteq> m \<longrightarrow> counter mgr m' r' = counter mgr m' r)"
proof -
  have c: "stored_or_0 (redis_get (redis_set r (lock_key mgr) (RStr (str_int 1))) (max_id_key mgr m)) = Inr c"
    using assms(2) counter_set_lock[of mgr m r] by (simp add: counter_def)
  show ?thesis
    by (simp add: next_id_def wait_for_lock_free[OF assms(1)] c Let_def is_locked_release
        counter_release counter_set_counter counter_set_lock)
qed

lemma ids_for_Cons:
  "ids_for m (m0 # ms) (i # ids) = (if m0 = m then i # ids_for m ms ids else ids_for m ms ids)"
  by (simp add: ids_for_def)

lemma ids_for_Nil [simp]: "ids_for m [] ids = []"
  by (simp add: ids_for_def)

lemma run_shift: "(c + 1) # map (\<lambda>k. c + 1 + int k) [1..<Suc n] = map (\<lambda>k. c + int k) [1..<Suc (Suc n)]"
proof (induction n)
  case 0
  show ?case by simp
next
  case (Suc n)
  have a: "[1..<Suc (Suc n)] = [1..<Suc n] @ [Suc n]" by simp
  have b: "[1..<Suc (Suc (Suc n))] = [1..<Suc (Suc n)] @ [Suc (Suc n)]" by simp
  show ?case
    by (subst a, subst b) (simp only: map_append append_Cons[symmetric] Suc.IH, simp)
qed

lemma next_ids_run:
  assumes "is_locked mgr r = Inr False" and "\<forall>m\<in>set ms. \<exists>c. counter mgr m r = Inr c"
  shows "\<exists>ids r'. next_ids mgr ms r = Some (Inr ids, r') \<and> length ids = length ms \<and>
           (\<forall>m c. counter mgr m r = Inr c \<longrightarrow>
              ids_for m ms ids = map (\<lambda>k. c + int k) [1..<Suc (count_list ms m)])"
  using assms
proof (induction ms arbitrary: r)
  case Nil
  then show ?case by simp
next
  case (Cons m0 ms)
  then obtain c0 where c0: "counter mgr m0 r = Inr c0" by auto
  from next_id_step[OF Cons.prems(1) c0] obtain r1 where
    r1: "next_id mgr m0 r = Some (Inr (c0 + 1), r1)" "is_locked mgr r1 = Inr False"
      "counter mgr m0 r1 = Inr (c0 + 1)" "\<And>m'. m' \<noteq> m0 \<Longrightarrow> counter mgr m' r1 = counter mgr m' r"
    by blast
  have wf: "\<forall>m\<in>set ms. \<exists>c. counter mgr m r1 = Inr c"
    using Cons.prems(2) r1(3,4) by (metis list.set_intros(2))
  from Cons.IH[OF r1(2) wf] obtain ids r2 where
    ih: "next_ids mgr ms r1 = Some (Inr ids, r2)" "length ids = length ms"
      "\<And>m c. counter mgr m r1 = Inr c \<Longrightarrow>
         ids_for m ms ids = map (\<lambda>k. c + int k) [1..<Suc (count_list ms m)]"
    by blast
  have "ids_for m (m0 # ms) ((c0 + 1) # ids)
      = map (\<lambda>k. c + int k) [1..<Suc (count_list (m0 # ms) m)]"
    if c: "counter mgr m r = Inr c" for m c
  proof (cases "m = m0")
    case True
    then have "c = c0" using c c0 by simp
    then show ?thesis using True ih(3)[OF r1(3)] run_shift[of c0 "count_list ms m0"]
      by (simp add: ids_for_Cons)
  next
    case False
    then show ?thesis using ih(3)[of m c] r1(4)[of m] c by (simp add: ids_for_Cons)
  qed
  then show ?case using r1(1) ih(1,2) by simp
qed

lemma sorted_run: "sorted_wrt (<) (map (\<lambda>k. c + int k) [1..<n])"
  by (simp add: sorted_wrt_map sorted_wrt_upt)

lemma ids_for_absent: "m \<notin> set ms \<Longrightarrow> ids_for m ms ids = []"
  by (auto simp: ids_for_def filter_empty_conv dest: set_zip_leftD)


lemma fresh_store_ready:
  "is_locked mgr (fresh_store mgr) = Inr False" "counter mgr m (fresh_store mgr) = Inr 0"
  by (simp_all add: fresh_store_def is_locked_release counter_release)
     (simp add: counter_def stored_or_0_def redis_get_def)

text \<open>
  Claim C1: when the allocations run one after the other, each from lock to release,
  from a store whose lock is free and whose counters read as integers, every call
  returns, the ids issued to a model are the stored counter plus 1, plus 2, and so on
  (each call returns the counter it finds plus one), and so they are strictly
  increasing and pairwise distinct.
\<close>

theorem next_ids_strictly_increasing:
  assumes "is_locked mgr r = Inr False" and "\<forall>m\<in>set ms. \<exists>c. counter mgr m r = Inr c"
  shows "\<exists>ids r'. next_ids mgr ms r = Some (Inr ids, r') \<and> length ids = length ms \<and>
           (\<forall>m c. counter mgr m r = Inr c \<longrightarrow>
              (\<exists>r1. next_id mgr m r = Some (Inr (c + 1), r1)) \<and>
              ids_for m ms ids = map (\<lambda>k. c + int k) [1..<Suc (count_list ms m)]) \<and>
           (\<forall>m. sorted_wrt (<) (ids_for m ms ids) \<and> distinct (ids_for m ms ids))"
proof -
  from next_ids_run[OF assms] obtain ids r' where
    a: "next_ids mgr ms r = Some (Inr ids, r')" "length ids = length ms"
      "\<And>m c. counter mgr m r = Inr c \<Longrightarrow>
         ids_for m ms ids = map (\<lambda>k. c + int k) [1..<Suc (count_list ms m)]"
    by blast
  have s: "sorted_wrt (<) (ids_for m ms ids)" for m
  proof (cases "m \<in> set ms")
    case True
    then obtain c where c: "counter mgr m r = Inr c" using assms(2) by auto
    show ?thesis unfolding a(3)[OF c] by (rule sorted_run)
  next
    case False
    then show ?thesis by (simp add: ids_for_absent)
  qed
  have d: "distinct (ids_for m ms ids)" for m
    using s[of m] by (simp add: strict_sorted_iff)
  have n: "\<exists>r1. next_id mgr m r = Some (Inr (c + 1), r1)" if "counter mgr m r = Inr c" for m c
    using next_id_step[OF assms(1) that] by blast
  show ?thesis using a s d n by blast
qed

theorem next_ids_strictly_increasing_witness:
  "\<exists>ids r'. next_ids test_mgr [''A'', ''B'', ''A''] (fresh_store test_mgr) = Some (Inr ids, r') \<and>
     length ids = 3 \<and> ids_for ''A'' [''A'', ''B'', ''A''] ids = [1, 2] \<and>
     ids_for ''B'' [''A'', ''B'', ''A''] ids = [1]"
proof -
  from next_ids_strictly_increasing [of test_mgr "fresh_store test_mgr" "[''A'', ''B'', ''A'']"]
  obtain ids r' where
    a: "next_ids test_mgr [''A'', ''B'', ''A''] (fresh_store test_mgr) = Some (Inr ids, r')"
      "length ids = length [''A'', ''B'', ''A'']"
      "\<And>m c. counter test_mgr m (fresh_store test_mgr) = Inr c \<Longrightarrow>
         ids_for m [''A'', ''B'', ''A''] ids
           = map (\<lambda>k. c + int k) [1..<Suc (count_list [''A'', ''B'', ''A''] m)]"
    using fresh_store_ready by blast
  have "ids_for ''A'' [''A'', ''B'', ''A''] ids = [1, 2]"
    using a(3)[OF fresh_store_ready(2), of "''A''"] by (simp add: upt_rec)
  moreover have "ids_for ''B'' [''A'', ''B'', ''A''] ids = [1]"
    using a(3)[OF fresh_store_ready(2), of "''B''"] by (simp add: upt_rec)
  ultimately show ?thesis using a(1,2) by simp
qed


section \<open>Properties of the query\<close>

lemma filter_field_name_skip:
  assumes "fst (split_filtering p) = first # nested" and "first \<noteq> name"
  shows "filter_field_name name v (fs1 @ (p, fby) # fs2) = filter_field_name name v (fs1 @ fs2)"
proof (induction fs1)
  case Nil
  then show ?case using assms by (cases "split_filtering p") simp
next
  case (Cons a fs1)
  then show ?case by (cases a) (simp split: prod.splits list.splits sum.splits)
qed

lemma scan_fields_skip:
  assumes "fst (split_filtering p) = first # nested" and "first \<notin> fst ` set fd"
  shows "scan_fields deser (fs1 @ (p, fby) # fs2) fd = scan_fields deser (fs1 @ fs2) fd"
  using assms(2)
proof (induction fd)
  case Nil
  then show ?case by simp
next
  case (Cons a fd)
  obtain name raw where a: "a = (name, raw)" by (cases a)
  have n: "first \<noteq> name" using Cons.prems a by auto
  have r: "scan_fields deser (fs1 @ (p, fby) # fs2) fd = scan_fields deser (fs1 @ fs2) fd"
    using Cons by simp
  show ?case
    by (auto simp: a r filter_field_name_skip[OF assms(1) n] split: sum.splits)
qed

lemma scan_record_skip:
  assumes "fst (split_filtering p) = first # nested"
    and "\<forall>d. val = RJson d \<longrightarrow> first \<notin> fst ` set d"
  shows "scan_record deser cls (fs1 @ (p, fby) # fs2) key val = scan_record deser cls (fs1 @ fs2) key val"
proof (cases val)
  case (RStr s)
  then show ?thesis by (simp add: scan_record_def ebind_def split: list.splits sum.splits)
next
  case (RJson d)
  then have "first \<notin> fst ` set d" using assms(2) by simp
  then show ?thesis
    by (simp add: scan_record_def RJson ebind_def scan_fields_skip[OF assms(1)]
        cong: list.case_cong sum.case_cong)
qed

lemma scan_records_skip:
  assumes "fst (split_filtering p) = first # nested"
    and "\<forall>(k, val)\<in>set kvs. \<forall>d. val = RJson d \<longrightarrow> first \<notin> fst ` set d"
  shows "scan_records deser cls (fs1 @ (p, fby) # fs2) kvs = scan_records deser cls (fs1 @ fs2) kvs"
  using assms(2)
proof (induction kvs)
  case Nil
  then show ?case by simp
next
  case (Cons a kvs)
  obtain k val where a: "a = (k, val)" by (cases a)
  have "\<forall>d. val = RJson d \<longrightarrow> first \<notin> fst ` set d" using Cons.prems a by auto
  from scan_record_skip[OF assms(1) this]
  show ?case using Cons by (auto simp: a split: sum.splits)
qed


lemma operator_word_has_empty_path:
  "\<forall>p\<in>set (map fst FILTER_METHODS). split_filtering p = ([], p)"
  by code_simp

text \<open>
  Claim C10, as stated: a filter whose top-level field name is not among the stored
  record's field names is never evaluated, matches every record and raises no error. It
  fails for a filter named by an operator word alone: \<^verbatim>\<open>exact\<close> is no field of
  \<^verbatim>\<open>Note\<close>, its field path is empty, and \<^verbatim>\<open>fields_to_filter[0]\<close> raises
  \<^verbatim>\<open>IndexError\<close> at the first field of the first record.
\<close>

theorem operator_word_filter_raises:
  "''exact'' \<notin> set (map fst (class_fields Note)) \<and>
   query test_mgr Note [(''exact'', PInt 1)] note_store = Inl IndexError"
  by code_simp

text \<open>
  Claim C10, amended: for every query, a filter argument whose field path is not empty
  and whose top-level field name does not occur among the field names of the stored
  records of the model is never evaluated against a record and imposes no constraint:
  the query returns what it returns without that filter (with no other filter, every
  instance) and raises nothing for it. A filter named by an operator word alone has an
  empty field path, and evaluating it for a record field raises \<^verbatim>\<open>IndexError\<close>.
\<close>

theorem absent_field_filter_imposes_no_constraint:
  assumes "\<forall>(k, val)\<in>set (filter (\<lambda>(k, v). startswith k (prefix mgr @ '':'' @ model_name cls @ '':'')) r).
           \<forall>d. val = RJson d \<longrightarrow> first \<notin> fst ` set d"
  shows "(fst (split_filtering p) = first # nested \<longrightarrow>
            get_model_instances_with deser mgr cls (fs1 @ (p, fby) # fs2) r
              = get_model_instances_with deser mgr cls (fs1 @ fs2) r) \<and>
         (fst (split_filtering p) = [] \<longrightarrow>
            filter_field_name name v ((p, fby) # rest) = Inl IndexError) \<and>
         (p \<in> set (map fst FILTER_METHODS) \<longrightarrow> fst (split_filtering p) = [])"
proof (intro conjI impI)
  assume a: "fst (split_filtering p) = first # nested"
  show "get_model_instances_with deser mgr cls (fs1 @ (p, fby) # fs2) r
          = get_model_instances_with deser mgr cls (fs1 @ fs2) r"
    unfolding get_model_instances_with_def
    by (rule scan_records_skip[OF a assms])
next
  assume "fst (split_filtering p) = []"
  then show "filter_field_name name v ((p, fby) # rest) = Inl IndexError"
    by (cases "split_filtering p") simp
next
  assume "p \<in> set (map fst FILTER_METHODS)"
  then show "fst (split_filtering p) = []"
    using operator_word_has_empty_path by fastforce
qed

theorem absent_field_filter_imposes_no_constraint_witness:
  "query test_mgr Note [(''texd'', PStr ''x'')] note_store = query test_mgr Note [] note_store \<and>
   map inst_attrs (projr (query test_mgr Note [] note_store)) = [[(''id'', PInt 1), (''text'', PNone)]]"
proof -
  have a: "fst (split_filtering ''texd'') = ''texd'' # []"
    by code_simp
  have b: "\<forall>(k, val)\<in>set (filter (\<lambda>(k, v). startswith k (prefix test_mgr @ '':'' @ model_name Note @ '':''))
              note_store).
           \<forall>d. val = RJson d \<longrightarrow> ''texd'' \<notin> fst ` set d"
    by (simp add: note_store_def test_mgr_def Note_def)
  have "query test_mgr Note [(''texd'', PStr ''x'')] note_store = query test_mgr Note [] note_store"
    using absent_field_filter_imposes_no_constraint
      [OF b, where p = "''texd''" and nested = "[]" and ?fs1.0 = "[]" and ?fs2.0 = "[]"
         and fby = "PStr ''x''" and deser = "deserialize_instance_field test_mgr Note",
       THEN conjunct1] a
    by (simp add: query_def)
  moreover have "map inst_attrs (projr (query test_mgr Note [] note_store))
      = [[(''id'', PInt 1), (''text'', PNone)]]"
    by code_simp
  ultimately show ?thesis by simp
qed

lemma split_filtering_type_known: "snd (split_filtering p) \<in> set (map fst FILTER_METHODS)"
  by (simp add: split_filtering_def Let_def FILTER_METHODS_def)

text \<open>
  Claim C5: a query with a filter whose suffix is no recognised operator fails,
  whatever the records hold. The code does not do so. \<^verbatim>\<open>_split_filtering\<close> takes the
  unknown suffix for a nested field name and the operator for \<^verbatim>\<open>exact\<close>, so the check
  \<^verbatim>\<open>if filter_type not in self.FILTER_METHODS: raise\<close> of \<^verbatim>\<open>_filter_value\<close> never
  fires; the query raises only when a record holds a value other than \<^verbatim>\<open>None\<close> in the
  field. On the store of one \<^verbatim>\<open>Note\<close> whose text is \<^verbatim>\<open>None\<close>, the query
  \<^verbatim>\<open>query(text__bad='x')\<close> returns the empty result.
\<close>

theorem unknown_operator_on_null_field_returns:
  "split_filtering ''text__bad'' = ([''text'', ''bad''], ''exact'') \<and>
   query test_mgr Note [(''text__bad'', PStr ''x'')] note_store = Inr []"
  by code_simp


section \<open>Properties of saving\<close>














lemma update_keys_present:
  "map_of al k = Some x \<Longrightarrow> map fst (AList.update k v al) = map fst al"
  by (induction al) (auto split: if_splits)































end
